theory Spec2Isabelle
  imports Main "HOL-Library.Sublist"
begin

section \<open>JavaScript values as the chat controller sees them\<close>

text \<open>
  A JavaScript string is a sequence of UTF-16 code units: \<open>s.length\<close> counts code units and
  \<open>s.substring(0, n)\<close> keeps the first \<open>n\<close> of them, so strings are lists of code units, each
  the integer between 0 and 65535 that it encodes. The
  topic labels of \<open>src/controllers/chat.ts\<close> start with emoji, which are written here by their
  code units (a surrogate pair each); ASCII text is written as an Isabelle string and converted
  by \<open>js\<close>.
\<close>

type_synonym code_unit = int
type_synonym jstring = "code_unit list"

definition js :: "string \<Rightarrow> jstring" where
  "js s = map of_char s"

text \<open>
  The values a parsed JSON request body can hold, together with \<open>undefined\<close> for a property
  that is absent. The numeric payload is never inspected by the controller beyond truthiness.
\<close>

datatype jsval =
    JUndefined
  | JNull
  | JBool bool
  | JNum int
  | JStr jstring
  | JArr "jsval list"
  | JObj "(jstring \<times> jsval) list"

datatype js_error = TypeError | OracleError | StoreError | BSONError

text \<open>\<open>!v\<close> is true exactly on the falsy values.\<close>

fun truthy :: "jsval \<Rightarrow> bool" where
  "truthy JUndefined = False"
| "truthy JNull = False"
| "truthy (JBool b) = b"
| "truthy (JNum n) = (n \<noteq> 0)"
| "truthy (JStr s) = (s \<noteq> [])"
| "truthy (JArr xs) = True"
| "truthy (JObj kvs) = True"

text \<open>
  Reading one of the properties the controller reads (\<open>message\<close>, \<open>messages\<close>, \<open>topic\<close>,
  \<open>role\<close>, \<open>content\<close>, \<open>emotionalState\<close>, \<open>riskLevel\<close>): a TypeError on \<open>undefined\<close> and
  \<open>null\<close>, the stored value on an object that has the key, \<open>undefined\<close> everywhere else.
\<close>

fun get_prop :: "jsval \<Rightarrow> jstring \<Rightarrow> js_error + jsval" where
  "get_prop JUndefined k = Inl TypeError"
| "get_prop JNull k = Inl TypeError"
| "get_prop (JObj kvs) k = Inr (case map_of kvs k of Some v \<Rightarrow> v | None \<Rightarrow> JUndefined)"
| "get_prop v k = Inr JUndefined"

text \<open>
  The case mappings of \<open>String.prototype\<close> and \<open>JSON.parse\<close> belong to the JavaScript engine,
  and \<open>Types.ObjectId\<close> to Mongoose, not to this repository: they are parameters of the
  model. \<open>JSON_parse\<close> returns \<open>None\<close> where the engine throws a SyntaxError.
  \<open>new_ObjectId id\<close> is \<open>new Types.ObjectId(id).toString()\<close>, the canonical string of the
  ObjectId made from \<open>id\<close>, and \<open>None\<close> where the constructor throws because \<open>id\<close> does
  not denote one.
\<close>

record runtime =
  toLowerCase :: "jstring \<Rightarrow> jstring"
  toUpperCase :: "jstring \<Rightarrow> jstring"
  JSON_parse :: "jstring \<Rightarrow> jsval option"
  new_ObjectId :: "jstring \<Rightarrow> jstring option"

subsection \<open>String operations used by the controller\<close>

text \<open>\<open>String.prototype.trim\<close> removes WhiteSpace and LineTerminator code units at both ends.\<close>

definition is_space :: "code_unit \<Rightarrow> bool" where
  "is_space c \<longleftrightarrow>
     c \<in> {9, 10, 11, 12, 13, 32, 160, 5760, 8232, 8233, 8239, 8287, 12288, 65279}
     \<or> (8192 \<le> c \<and> c \<le> 8202)"

definition trim :: "jstring \<Rightarrow> jstring" where
  "trim s = rev (dropWhile is_space (rev (dropWhile is_space s)))"

definition substring0 :: "nat \<Rightarrow> jstring \<Rightarrow> jstring" where
  \<comment> \<open>\<open>s.substring(0, n)\<close>\<close>
  "substring0 n s = take n s"

text \<open>\<open>s.includes(k)\<close>: \<open>k\<close> occurs in \<open>s\<close> as a contiguous run of code units.\<close>

fun includes_str :: "jstring \<Rightarrow> jstring \<Rightarrow> bool" where
  "includes_str [] k = (k = [])"
| "includes_str (c # cs) k = (prefix k (c # cs) \<or> includes_str cs k)"

text \<open>\<open>s.split(" ")\<close> with a one-unit separator; the empty string gives one empty piece.\<close>

fun split_on :: "code_unit \<Rightarrow> jstring \<Rightarrow> jstring list" where
  "split_on d [] = [[]]"
| "split_on d (c # cs) =
     (if c = d then [] # split_on d cs
      else (case split_on d cs of [] \<Rightarrow> [[c]] | w # ws \<Rightarrow> (c # w) # ws))"

fun join_with :: "jstring \<Rightarrow> jstring list \<Rightarrow> jstring" where
  "join_with sep [] = []"
| "join_with sep [w] = w"
| "join_with sep (w # ws) = w @ sep @ join_with sep ws"

section \<open>The fallback topic (generateFallbackTopic)\<close>

definition new_chat_label :: jstring where
  "new_chat_label = [55357, 56492] @ js '' New Chat''"

text \<open>
  \<open>topicMap\<close> in the order of the object literal, which is the order \<open>Object.entries\<close>
  enumerates its (non-numeric) keys in.
\<close>

definition topicMap :: "(jstring \<times> jstring) list" where
  "topicMap =
    [(js ''anxiety'', [55357, 56493] @ js '' Anxiety Support''),
     (js ''anxious'', [55357, 56493] @ js '' Anxiety Support''),
     (js ''worried'', [55357, 56493] @ js '' Anxiety Support''),
     (js ''stress'', [55357, 56880] @ js '' Stress Management''),
     (js ''stressed'', [55357, 56880] @ js '' Stress Management''),
     (js ''overwhelmed'', [55356, 57098] @ js '' Feeling Overwhelmed''),
     (js ''sleep'', [55357, 56884] @ js '' Sleep Issues''),
     (js ''insomnia'', [55357, 56884] @ js '' Sleep Problems''),
     (js ''tired'', [55357, 56884] @ js '' Sleep & Energy''),
     (js ''depression'', [55356, 57127, 65039] @ js '' Depression Support''),
     (js ''depressed'', [55356, 57127, 65039] @ js '' Depression Support''),
     (js ''sad'', [55357, 56866] @ js '' Emotional Support''),
     (js ''work'', [55357, 56508] @ js '' Work Issues''),
     (js ''job'', [55357, 56508] @ js '' Work Stress''),
     (js ''relationship'', [55357, 56469] @ js '' Relationship Help''),
     (js ''partner'', [55357, 56469] @ js '' Relationship Issues''),
     (js ''family'',
        [55357, 56424, 8205, 55357, 56425, 8205, 55357, 56423, 8205, 55357, 56422]
        @ js '' Family Matters''),
     (js ''panic'', [9889] @ js '' Panic Support''),
     (js ''anger'', [55357, 56865] @ js '' Anger Management''),
     (js ''angry'', [55357, 56865] @ js '' Anger Management''),
     (js ''lonely'', [55358, 56599] @ js '' Loneliness Support''),
     (js ''confidence'', [55357, 56490] @ js '' Building Confidence''),
     (js ''self-esteem'', [55357, 56490] @ js '' Self-Worth''),
     (js ''grief'', [55357, 56473] @ js '' Grief Support''),
     (js ''loss'', [55357, 56473] @ js '' Coping with Loss'')]"

text \<open>The \<open>for ... of Object.entries(topicMap)\<close> loop: the first keyword included wins.\<close>

fun match_topic :: "(jstring \<times> jstring) list \<Rightarrow> jstring \<Rightarrow> jstring option" where
  "match_topic [] s = None"
| "match_topic ((keyword, topic) # rest) s =
     (if includes_str s keyword then Some topic else match_topic rest s)"

text \<open>
  \<open>messages.filter((msg) => msg.role === "user")\<close> over elements of any shape: reading
  \<open>role\<close> throws on a \<open>null\<close> or \<open>undefined\<close> element, wherever it stands in the array.
\<close>

fun filter_user :: "jsval list \<Rightarrow> js_error + jsval list" where
  "filter_user [] = Inr []"
| "filter_user (msg # msgs) =
     (case get_prop msg (js ''role'') of
        Inl e \<Rightarrow> Inl e
      | Inr r \<Rightarrow>
          (case filter_user msgs of
             Inl e \<Rightarrow> Inl e
           | Inr us \<Rightarrow> Inr (if r = JStr (js ''user'') then msg # us else us)))"

text \<open>The label synthesised from the first three space-separated words.\<close>

definition first_words_topic :: "runtime \<Rightarrow> jstring \<Rightarrow> jstring" where
  "first_words_topic rt firstMessage =
     (let words = join_with (js '' '') (take 3 (split_on 32 firstMessage));
          capitalizedWords = toUpperCase rt (take 1 words) @ drop 1 words
      in [55357, 56492] @ js '' '' @ capitalizedWords)"

definition topic_of_content :: "runtime \<Rightarrow> jstring \<Rightarrow> jstring" where
  "topic_of_content rt content =
     (let firstMessage = toLowerCase rt content
      in case match_topic topicMap firstMessage of
           Some topic \<Rightarrow> topic
         | None \<Rightarrow> first_words_topic rt firstMessage)"

text \<open>
  The parameter is typed \<open>any[]\<close> and receives \<open>req.body.messages\<close> as it came in, so the
  model takes any value. \<open>Inl\<close> is the TypeError the source throws: \<open>filter\<close> is missing on
  a value that is not an array, and \<open>toLowerCase\<close> on a content that is not a string.
\<close>

fun generateFallbackTopic :: "runtime \<Rightarrow> jsval \<Rightarrow> js_error + jstring" where
  "generateFallbackTopic rt (JArr messages) =
     (if messages = [] then Inr new_chat_label
      else case filter_user messages of
             Inl e \<Rightarrow> Inl e
           | Inr [] \<Rightarrow> Inr new_chat_label
           | Inr (first # _) \<Rightarrow>
               (case get_prop first (js ''content'') of
                  Inr (JStr content) \<Rightarrow> Inr (topic_of_content rt content)
                | _ \<Rightarrow> Inl TypeError))"
| "generateFallbackTopic rt (JObj kvs) =
     (if map_of kvs (js ''length'') = Some (JNum 0) then Inr new_chat_label else Inl TypeError)"
| "generateFallbackTopic rt v =
     (if \<not> truthy v then Inr new_chat_label else Inl TypeError)"

text \<open>
  A runtime for running the model on ASCII text: the case mappings of the Basic Latin
  letters, which is what the engine's mappings do on strings of ASCII code units, a
  \<open>JSON.parse\<close> that knows the three literals, and an ObjectId constructor that takes the
  strings of 24 hexadecimal digits, whose canonical form is in lower case.
\<close>

definition ascii_lower :: "jstring \<Rightarrow> jstring" where
  "ascii_lower s = map (\<lambda>c. if 65 \<le> c \<and> c \<le> 90 then c + 32 else c) s"

definition ascii_upper :: "jstring \<Rightarrow> jstring" where
  "ascii_upper s = map (\<lambda>c. if 97 \<le> c \<and> c \<le> 122 then c - 32 else c) s"

definition literal_parse :: "jstring \<Rightarrow> jsval option" where
  "literal_parse s =
     (if s = js ''null'' then Some JNull
      else if s = js ''true'' then Some (JBool True)
      else if s = js ''false'' then Some (JBool False)
      else None)"

definition is_hex_digit :: "code_unit \<Rightarrow> bool" where
  "is_hex_digit c \<longleftrightarrow>
     (48 \<le> c \<and> c \<le> 57) \<or> (65 \<le> c \<and> c \<le> 70) \<or> (97 \<le> c \<and> c \<le> 102)"

definition hex_object_id :: "jstring \<Rightarrow> jstring option" where
  "hex_object_id s =
     (if length s = 24 \<and> list_all is_hex_digit s then Some (ascii_lower s) else None)"

definition ascii_runtime :: runtime where
  "ascii_runtime =
     \<lparr>toLowerCase = ascii_lower, toUpperCase = ascii_upper, JSON_parse = literal_parse,
      new_ObjectId = hex_object_id\<rparr>"

definition user_msg :: "string \<Rightarrow> jsval" where
  "user_msg s = JObj [(js ''role'', JStr (js ''user'')), (js ''content'', JStr (js s))]"

definition assistant_msg :: "string \<Rightarrow> jsval" where
  "assistant_msg s = JObj [(js ''role'', JStr (js ''assistant'')), (js ''content'', JStr (js s))]"

text \<open>Predicates on the elements of a message array, for stating what the functions need.\<close>

definition has_props :: "jsval \<Rightarrow> bool" where
  \<comment> \<open>reading a property of the value does not throw\<close>
  "has_props v \<longleftrightarrow> v \<noteq> JUndefined \<and> v \<noteq> JNull"

definition is_user :: "jsval \<Rightarrow> bool" where
  \<comment> \<open>\<open>msg.role === "user"\<close>\<close>
  "is_user msg \<longleftrightarrow> get_prop msg (js ''role'') = Inr (JStr (js ''user''))"

definition text_content :: "jsval \<Rightarrow> jstring option" where
  \<comment> \<open>\<open>msg.content\<close> when it is a string\<close>
  "text_content msg =
     (case get_prop msg (js ''content'') of Inr (JStr c) \<Rightarrow> Some c | _ \<Rightarrow> None)"

section \<open>Sessions, requests and the collaborators of the controller\<close>

text \<open>
  \<open>IChatMessage\<close> and \<open>IChatSession\<close> of \<open>src/models/chat.ts\<close>. The metadata fields
  \<open>technique\<close> and \<open>goal\<close> and the timestamps \<open>createdAt\<close>/\<open>updatedAt\<close> that Mongoose
  maintains are never read or written by the controller and are left out. The stored
  \<open>userId\<close> is an ObjectId, represented by its \<open>toString()\<close>.
\<close>

datatype msg_role = User | Assistant

record msg_metadata =
  analysis :: jsval
  progress :: jsval

record chat_message =
  role :: msg_role
  content :: jstring
  timestamp :: nat
  metadata :: "msg_metadata option"

record chat_session =
  sessionId :: jstring
  userId :: jstring
  messages :: "chat_message list"
  topic :: "jstring option"
  startTime :: nat
  status :: jstring

text \<open>
  What the generation model is asked. The prompts are fixed templates around the
  interpolated data, so a request is the template together with that data: the trimmed
  message for the two prompts of \<open>sendMessage\<close>, and for the topic prompt one line per
  message, made of its \<open>role\<close> and its content capped at 200 code units.
\<close>

datatype oracle_request =
    Analysis_prompt jstring
  | Response_prompt jstring
  | Topic_prompt "(jsval \<times> jstring) list"

text \<open>
  The calls that leave the process, in the order they are made: \<open>inngest.send\<close> with the
  message and the history, \<open>model.generateContent\<close>, and \<open>session.save()\<close> with the document
  it writes and whether the write succeeded.
\<close>

datatype event =
    Inngest_send jstring "chat_message list"
  | Generate_content oracle_request
  | Session_save chat_session bool

text \<open>
  The state outside the handler: the session documents of the collection and the calls
  made so far.
\<close>

record world =
  store :: "chat_session list"
  trace :: "event list"

text \<open>
  The collaborators, as far as a handler depends on them. \<open>generateContent\<close> is the text of
  the model's response, \<open>None\<close> when the call or \<open>response.text()\<close> throws; \<open>save_ok\<close> says
  whether \<open>session.save()\<close> (schema validation and the database write) accepts a
  document; \<open>find_ok\<close> whether the query of \<open>findOne\<close> reaches the database; \<open>new_Date\<close>
  is the clock, read at a position of the trace; \<open>error_message\<close> is the \<open>message\<close> of a
  thrown error.
\<close>

record services =
  generateContent :: "oracle_request \<Rightarrow> jstring option"
  find_ok :: bool
  save_ok :: "chat_session \<Rightarrow> bool"
  new_Date :: "nat \<Rightarrow> nat"
  error_message :: "js_error \<Rightarrow> jstring"

text \<open>
  An Express request after the \<open>auth\<close> middleware and \<open>express.json()\<close>: the route
  parameter, the parsed body, and \<open>req.user.id\<close> (\<open>None\<close> when \<open>req.user\<close> is missing). The
  middleware is not part of the sources, so the id is any string.
\<close>

record request =
  param_sessionId :: jstring
  body :: jsval
  user_id :: "jstring option"

datatype response = Response (status_code: nat) (json_body: jsval)

definition json :: "nat \<Rightarrow> (string \<times> jsval) list \<Rightarrow> response" where
  \<comment> \<open>\<open>res.status(code).json({...})\<close>\<close>
  "json code kvs = Response code (JObj (map (\<lambda>(k, v). (js k, v)) kvs))"

definition caller :: "request \<Rightarrow> jstring option" where
  \<comment> \<open>the guard \<open>!req.user || !req.user.id\<close>\<close>
  "caller req =
     (case user_id req of None \<Rightarrow> None | Some uid \<Rightarrow> if uid = [] then None else Some uid)"

definition findOne :: "services \<Rightarrow> world \<Rightarrow> jstring \<Rightarrow> js_error + chat_session option" where
  \<comment> \<open>\<open>ChatSession.findOne({ sessionId })\<close>\<close>
  "findOne sv w sid =
     (if find_ok sv then Inr (find (\<lambda>d. sessionId d = sid) (store w)) else Inl StoreError)"

text \<open>
  \<open>session.save()\<close> on a document that \<open>findOne\<close> returned writes it back in the place of
  the stored one (\<open>sessionId\<close> is a unique index and no handler changes it).
\<close>

fun put_session :: "chat_session \<Rightarrow> chat_session list \<Rightarrow> chat_session list" where
  "put_session doc [] = [doc]"
| "put_session doc (d # rest) =
     (if sessionId d = sessionId doc then doc # rest else d # put_session doc rest)"

definition save :: "services \<Rightarrow> chat_session \<Rightarrow> world \<Rightarrow> bool \<times> world" where
  "save sv doc w =
     (if save_ok sv doc
      then (True, \<lparr>store = put_session doc (store w), trace = trace w @ [Session_save doc True]\<rparr>)
      else (False, w\<lparr>trace := trace w @ [Session_save doc False]\<rparr>))"

definition emit :: "event \<Rightarrow> world \<Rightarrow> world" where
  "emit e w = w\<lparr>trace := trace w @ [e]\<rparr>"

text \<open>The guard \<open>!v || typeof v !== "string" || v.trim().length === 0\<close> on a body field.\<close>

definition invalid_text :: "jsval \<Rightarrow> bool" where
  "invalid_text v \<longleftrightarrow>
     \<not> truthy v \<or> (case v of JStr s \<Rightarrow> length (trim s) = 0 | _ \<Rightarrow> True)"

text \<open>
  A global regular-expression replace by the empty string, for a pattern that is a choice
  between fixed strings tried in order at each position: the scan goes left to right and
  resumes behind a match. The counter is the number of units of the current match still to
  skip.
\<close>

fun remove_matches :: "jstring list \<Rightarrow> nat \<Rightarrow> jstring \<Rightarrow> jstring" where
  "remove_matches alts n [] = []"
| "remove_matches alts (Suc n) (c # cs) = remove_matches alts n cs"
| "remove_matches alts 0 (c # cs) =
     (case find (\<lambda>p. prefix p (c # cs)) alts of
        Some p \<Rightarrow> remove_matches alts (length p - 1) cs
      | None \<Rightarrow> c # remove_matches alts 0 cs)"

section \<open>sendMessage\<close>

definition fallback_analysis :: jsval where
  "fallback_analysis =
     JObj [(js ''emotionalState'', JStr (js ''seeking_support'')),
           (js ''themes'', JArr [JStr (js ''anxiety_management'')]),
           (js ''riskLevel'', JNum 1),
           (js ''recommendedApproach'', JStr (js ''cognitive_behavioral'')),
           (js ''progressIndicators'', JArr [JStr (js ''active_engagement'')])]"

definition fallback_response :: jstring where
  "fallback_response =
     js (''I hear that you're looking for support with managing anxiety. ''
       @ ''That's a very common concern, and it's great that you're reaching out. ''
       @ ''There are several effective strategies we can explore together. ''
       @ ''What specific situations tend to trigger your anxiety the most?'')"

text \<open>
  \<open>analysisText.replace(/```json\n?/g, "").replace(/\n?```/g, "").trim()\<close>, on the trimmed
  text of the response.
\<close>

definition clean_analysis_text :: "jstring \<Rightarrow> jstring" where
  "clean_analysis_text raw =
     trim (remove_matches [10 # js ''```'', js ''```''] 0
            (remove_matches [js ''```json'' @ [10], js ''```json''] 0 (trim raw)))"

text \<open>The first \<open>try\<close>/\<open>catch\<close>: any failure of the call or of \<open>JSON.parse\<close> selects the fallback.\<close>

definition analyse :: "runtime \<Rightarrow> services \<Rightarrow> jstring \<Rightarrow> jsval" where
  "analyse rt sv text =
     (case generateContent sv (Analysis_prompt text) of
        None \<Rightarrow> fallback_analysis
      | Some raw \<Rightarrow>
          (case JSON_parse rt (clean_analysis_text raw) of
             None \<Rightarrow> fallback_analysis
           | Some parsed \<Rightarrow> parsed))"

text \<open>The second \<open>try\<close>/\<open>catch\<close>.\<close>

definition reply :: "services \<Rightarrow> jstring \<Rightarrow> jstring" where
  "reply sv text =
     (case generateContent sv (Response_prompt text) of
        None \<Rightarrow> fallback_response
      | Some raw \<Rightarrow> trim raw)"

definition sendMessage_error :: "services \<Rightarrow> js_error \<Rightarrow> response" where
  \<comment> \<open>the outer \<open>catch\<close>\<close>
  "sendMessage_error sv e =
     json 500 [(''message'', JStr (js ''Error processing message'')),
               (''error'', JStr (error_message sv e))]"

definition user_turn :: "services \<Rightarrow> world \<Rightarrow> jstring \<Rightarrow> chat_message" where
  "user_turn sv w message =
     \<lparr>role = User, content = trim message, timestamp = new_Date sv (length (trace w)),
      metadata = None\<rparr>"

definition progress_of :: "jsval \<Rightarrow> jsval \<Rightarrow> jsval" where
  "progress_of emotionalState riskLevel =
     JObj [(js ''emotionalState'', emotionalState), (js ''riskLevel'', riskLevel)]"

definition assistant_turn :: "services \<Rightarrow> world \<Rightarrow> jstring \<Rightarrow> jsval \<Rightarrow> jsval \<Rightarrow> chat_message" where
  "assistant_turn sv w text an pr =
     \<lparr>role = Assistant, content = text, timestamp = new_Date sv (length (trace w)),
      metadata = Some \<lparr>analysis = an, progress = pr\<rparr>\<rparr>"

text \<open>
  The handler from the push of the user turn on (lines 97 to 236), for a message that passed
  the guards and the session that was found. The user turn is pushed onto the document in
  memory; \<open>inngest.send\<close> is awaited inside its own \<open>try\<close>, so its outcome changes nothing;
  the two calls of the model follow; reading \<open>analysis.emotionalState\<close> throws when the
  parsed analysis is \<open>null\<close>; the one \<open>session.save()\<close> comes last.
\<close>

definition process_message ::
  "runtime \<Rightarrow> services \<Rightarrow> jstring \<Rightarrow> chat_session \<Rightarrow> world \<Rightarrow> response \<times> world" where
  "process_message rt sv message session w =
     (let text = trim message;
          session1 = session\<lparr>messages := messages session @ [user_turn sv w message]\<rparr>;
          w1 = emit (Inngest_send text (messages session1)) w;
          w2 = emit (Generate_content (Analysis_prompt text)) w1;
          an = analyse rt sv text;
          w3 = emit (Generate_content (Response_prompt text)) w2;
          answer = reply sv text
      in case get_prop an (js ''emotionalState'') of
           Inl e \<Rightarrow> (sendMessage_error sv e, w3)
         | Inr emotionalState \<Rightarrow>
             (case get_prop an (js ''riskLevel'') of
                Inl e \<Rightarrow> (sendMessage_error sv e, w3)
              | Inr riskLevel \<Rightarrow>
                  (let pr = progress_of emotionalState riskLevel;
                       session2 = session1\<lparr>messages :=
                         messages session1 @ [assistant_turn sv w3 answer an pr]\<rparr>
                   in case save sv session2 w3 of
                        (False, w4) \<Rightarrow> (sendMessage_error sv StoreError, w4)
                      | (True, w4) \<Rightarrow>
                          (json 200 [(''response'', JStr answer),
                                     (''message'', JStr answer),
                                     (''analysis'', an),
                                     (''metadata'', JObj [(js ''progress'', pr)])],
                           w4))))"

text \<open>
  The guards of the handler, in their order. \<open>new Types.ObjectId(req.user.id)\<close> (line 81)
  throws inside the \<open>try\<close> on an id that denotes no ObjectId; the ownership test (line 92)
  compares the canonical strings of the stored owner and of the caller's ObjectId.
\<close>

definition sendMessage :: "runtime \<Rightarrow> services \<Rightarrow> request \<Rightarrow> world \<Rightarrow> response \<times> world" where
  "sendMessage rt sv req w =
     (case get_prop (body req) (js ''message'') of
        Inl e \<Rightarrow> (sendMessage_error sv e, w)
      | Inr message \<Rightarrow>
          if invalid_text message
          then (json 400 [(''message'', JStr (js ''Message cannot be empty''))], w)
          else (case caller req of
                  None \<Rightarrow> (json 401 [(''message'', JStr (js ''Unauthorized''))], w)
                | Some uid \<Rightarrow>
                    (case new_ObjectId rt uid of
                       None \<Rightarrow> (sendMessage_error sv BSONError, w)
                     | Some caller_id \<Rightarrow>
                         (case findOne sv w (param_sessionId req) of
                            Inl e \<Rightarrow> (sendMessage_error sv e, w)
                          | Inr None \<Rightarrow>
                              (json 404 [(''message'', JStr (js ''Session not found''))], w)
                          | Inr (Some session) \<Rightarrow>
                              if userId session \<noteq> caller_id
                              then (json 403 [(''message'', JStr (js ''Unauthorized''))], w)
                              else (case message of
                                      JStr m \<Rightarrow> process_message rt sv m session w
                                    | _ \<Rightarrow> (sendMessage_error sv TypeError, w))))))"

section \<open>generateTopic and updateSessionTopic\<close>

text \<open>
  Interpolating a value into a template literal converts it to a string. On a value parsed
  from JSON the conversion throws exactly when it meets an object with an own property
  \<open>toString\<close> (which cannot be a function), at the top or inside arrays.
\<close>

fun to_string_ok :: "jsval \<Rightarrow> bool" where
  "to_string_ok (JObj kvs) = (map_of kvs (js ''toString'') = None)"
| "to_string_ok (JArr xs) = (\<forall>x \<in> set xs. to_string_ok x)"
| "to_string_ok v = True"

text \<open>
  One line of the transcript in the topic prompt:
  \<open>${msg.role}: ${msg.content.substring(0, 200)}${msg.content.length > 200 ? "..." : ""}\<close>.
  It throws on an element without properties, on a role that cannot be made a string, and
  on a content that is not a string.
\<close>

definition transcript_line :: "jsval \<Rightarrow> js_error + (jsval \<times> jstring)" where
  "transcript_line msg =
     (case get_prop msg (js ''role'') of
        Inl e \<Rightarrow> Inl e
      | Inr r \<Rightarrow>
          if \<not> to_string_ok r then Inl TypeError
          else (case get_prop msg (js ''content'') of
                  Inr (JStr c) \<Rightarrow>
                    Inr (r, substring0 200 c @ (if length c > 200 then js ''...'' else []))
                | _ \<Rightarrow> Inl TypeError))"

fun transcript :: "jsval list \<Rightarrow> js_error + (jsval \<times> jstring) list" where
  "transcript [] = Inr []"
| "transcript (msg # msgs) =
     (case transcript_line msg of
        Inl e \<Rightarrow> Inl e
      | Inr l \<Rightarrow> (case transcript msgs of Inl e \<Rightarrow> Inl e | Inr ls \<Rightarrow> Inr (l # ls)))"

text \<open>\<open>result.response.text().trim()\<close>, then \<open>.replace(/['"]/g, "").trim()\<close>.\<close>

definition clean_topic :: "jstring \<Rightarrow> jstring" where
  "clean_topic raw = trim (filter (\<lambda>c. c \<noteq> 39 \<and> c \<noteq> 34) (trim raw))"

definition ultimate_fallback_topic :: jstring where
  "ultimate_fallback_topic = [55357, 56492] @ js '' Therapy Session''"

text \<open>
  The \<open>catch\<close> of \<open>generateTopic\<close>: it reads \<open>req.body.messages\<close> again and calls
  \<open>generateFallbackTopic\<close> inside a \<open>try\<close> of its own, whose \<open>catch\<close> answers 500 with the
  hardcoded topic.
\<close>

definition generateTopic_catch :: "runtime \<Rightarrow> request \<Rightarrow> response" where
  "generateTopic_catch rt req =
     (case get_prop (body req) (js ''messages'') of
        Inl e \<Rightarrow>
          json 500 [(''error'', JStr (js ''Failed to generate topic'')),
                    (''topic'', JStr ultimate_fallback_topic)]
      | Inr ms \<Rightarrow>
          (case generateFallbackTopic rt ms of
             Inl e \<Rightarrow>
               json 500 [(''error'', JStr (js ''Failed to generate topic'')),
                         (''topic'', JStr ultimate_fallback_topic)]
           | Inr fallbackTopic \<Rightarrow> json 200 [(''topic'', JStr fallbackTopic)]))"

definition generateTopic :: "runtime \<Rightarrow> services \<Rightarrow> request \<Rightarrow> world \<Rightarrow> response \<times> world" where
  "generateTopic rt sv req w =
     (case get_prop (body req) (js ''messages'') of
        Inl e \<Rightarrow> (generateTopic_catch rt req, w)
      | Inr (JArr ms) \<Rightarrow>
          if ms = []
          then (json 400 [(''error'',
                  JStr (js ''Messages array is required and cannot be empty''))], w)
          else (case caller req of
                  None \<Rightarrow> (json 401 [(''message'', JStr (js ''Unauthorized''))], w)
                | Some uid \<Rightarrow>
                    (case transcript ms of
                       Inl e \<Rightarrow> (generateTopic_catch rt req, w)
                     | Inr ls \<Rightarrow>
                         (let w1 = emit (Generate_content (Topic_prompt ls)) w
                          in case generateContent sv (Topic_prompt ls) of
                               None \<Rightarrow> (generateTopic_catch rt req, w1)
                             | Some raw \<Rightarrow>
                                 (let t = clean_topic raw
                                  in if t = [] \<or> length t > 50
                                     then (case generateFallbackTopic rt (JArr ms) of
                                             Inl e \<Rightarrow> (generateTopic_catch rt req, w1)
                                           | Inr t' \<Rightarrow> (json 200 [(''topic'', JStr t')], w1))
                                     else (json 200 [(''topic'', JStr t)], w1)))))
      | Inr other \<Rightarrow>
          (json 400 [(''error'',
             JStr (js ''Messages array is required and cannot be empty''))], w))"

definition updateSessionTopic_error :: "services \<Rightarrow> js_error \<Rightarrow> response" where
  "updateSessionTopic_error sv e =
     json 500 [(''error'', JStr (js ''Failed to update session topic'')),
               (''details'', JStr (error_message sv e))]"

definition updateSessionTopic ::
  "runtime \<Rightarrow> services \<Rightarrow> request \<Rightarrow> world \<Rightarrow> response \<times> world" where
  "updateSessionTopic rt sv req w =
     (case get_prop (body req) (js ''topic'') of
        Inl e \<Rightarrow> (updateSessionTopic_error sv e, w)
      | Inr t \<Rightarrow>
          if invalid_text t
          then (json 400 [(''error'',
                  JStr (js ''Topic is required and must be a non-empty string''))], w)
          else (case caller req of
                  None \<Rightarrow> (json 401 [(''message'', JStr (js ''Unauthorized''))], w)
                | Some uid \<Rightarrow>
                    (case new_ObjectId rt uid of
                       None \<Rightarrow> (updateSessionTopic_error sv BSONError, w)
                     | Some caller_id \<Rightarrow>
                         (case findOne sv w (param_sessionId req) of
                            Inl e \<Rightarrow> (updateSessionTopic_error sv e, w)
                          | Inr None \<Rightarrow>
                              (json 404 [(''error'', JStr (js ''Session not found''))], w)
                          | Inr (Some session) \<Rightarrow>
                              if userId session \<noteq> caller_id
                              then (json 403 [(''error'', JStr (js ''Unauthorized''))], w)
                              else (case t of
                                      JStr s \<Rightarrow>
                                        (let session1 = session
                                               \<lparr>topic := Some (substring0 100 (trim s))\<rparr>
                                         in case save sv session1 w of
                                              (False, w1) \<Rightarrow>
                                                (updateSessionTopic_error sv StoreError, w1)
                                            | (True, w1) \<Rightarrow>
                                                (json 200
                                                   [(''success'', JBool True),
                                                    (''topic'',
                                                       (case topic session1 of
                                                          Some st \<Rightarrow> JStr st
                                                        | None \<Rightarrow> JUndefined)),
                                                    (''message'',
                                                       JStr (js ''Topic updated successfully''))],
                                                 w1))
                                    | _ \<Rightarrow> (updateSessionTopic_error sv TypeError, w))))))"

section \<open>Reading the outcome of a handler\<close>

text \<open>
  The failure kinds of the specification, read off the HTTP status the handlers answer
  with: 400 is its ValidationError, 401 its UnauthenticatedError, 403 its ForbiddenError,
  404 its NotFoundError, and 500 the server-side failure that a PersistenceError (or any
  other thrown error) surfaces as.
\<close>

datatype failure =
  ValidationError | UnauthenticatedError | ForbiddenError | NotFoundError | ServerError

definition failure_of :: "response \<Rightarrow> failure option" where
  "failure_of r =
     (if status_code r = 400 then Some ValidationError
      else if status_code r = 401 then Some UnauthenticatedError
      else if status_code r = 403 then Some ForbiddenError
      else if status_code r = 404 then Some NotFoundError
      else if status_code r = 500 then Some ServerError
      else None)"

text \<open>
  The ordering the specification asks of \<open>submitMessage\<close>, as a property of the calls of a
  run: no call of the model before a successful save of a document that holds the user
  turn.
\<close>

fun committed_before_oracle :: "chat_message \<Rightarrow> event list \<Rightarrow> bool" where
  "committed_before_oracle u [] = True"
| "committed_before_oracle u (Session_save doc ok # es) =
     ((ok \<and> u \<in> set (messages doc)) \<or> committed_before_oracle u es)"
| "committed_before_oracle u (Generate_content r # es) = False"
| "committed_before_oracle u (Inngest_send t h # es) = committed_before_oracle u es"

subsection \<open>A small world to run the handlers in\<close>

text \<open>
  The owner's id as the store prints it, and another user's id as a client may send it, in
  upper case.
\<close>

definition owner_id :: string where
  "owner_id = ''507f1f77bcf86cd799439011''"

definition stranger_id :: string where
  "stranger_id = ''507F191E810C19729DE860EA''"

definition example_session :: chat_session where
  "example_session =
     \<lparr>sessionId = js ''s1'', userId = js owner_id, messages = [], topic = None,
      startTime = 0, status = js ''active''\<rparr>"

definition example_world :: world where
  "example_world = \<lparr>store = [example_session], trace = []\<rparr>"

definition example_services :: "(oracle_request \<Rightarrow> jstring option) \<Rightarrow> bool \<Rightarrow> services" where
  "example_services oracle db_writes =
     \<lparr>generateContent = oracle, find_ok = True, save_ok = (\<lambda>doc. db_writes),
      new_Date = (\<lambda>n. n), error_message = (\<lambda>e. js ''failed'')\<rparr>"

definition silent_oracle :: "oracle_request \<Rightarrow> jstring option" where
  \<comment> \<open>every call throws\<close>
  "silent_oracle r = None"

definition null_oracle :: "oracle_request \<Rightarrow> jstring option" where
  \<comment> \<open>answers the JSON text \<open>null\<close> to the analysis prompt and throws otherwise\<close>
  "null_oracle r = (case r of Analysis_prompt t \<Rightarrow> Some (js ''null'') | _ \<Rightarrow> None)"

definition chatty_oracle :: "oracle_request \<Rightarrow> jstring option" where
  \<comment> \<open>answers in prose, also where JSON was asked for\<close>
  "chatty_oracle r =
     (case r of
        Analysis_prompt t \<Rightarrow> Some (js ''You seem calm.'')
      | Response_prompt t \<Rightarrow> Some (js '' Tell me more. '')
      | Topic_prompt ls \<Rightarrow> Some (js '' \"Sleep Struggles\" ''))"

definition example_request :: "jsval \<Rightarrow> string \<Rightarrow> request" where
  "example_request b uid = \<lparr>param_sessionId = js ''s1'', body = b, user_id = Some (js uid)\<rparr>"

definition message_request :: "string \<Rightarrow> string \<Rightarrow> request" where
  "message_request text uid = example_request (JObj [(js ''message'', JStr (js text))]) uid"

definition messages_request :: "jsval \<Rightarrow> request" where
  "messages_request v = example_request (JObj [(js ''messages'', v)]) ''u1''"

definition topic_request :: "jsval \<Rightarrow> string \<Rightarrow> request" where
  "topic_request v uid = example_request (JObj [(js ''topic'', v)]) uid"

text \<open>A topic of 122 code units between blanks, and the 100 that are kept of it.\<close>

definition long_topic :: jstring where
  "long_topic =
     js (''  Work Stress ''
       @ ''012345678901234567890123456789012345678901234567890123456789''
       @ ''01234567890123456789012345678901234567890123456789  '')"

definition long_topic_kept :: jstring where
  "long_topic_kept =
     js (''Work Stress ''
       @ ''012345678901234567890123456789012345678901234567890123456789''
       @ ''0123456789012345678901234567'')"

section \<open>Facts about the string and array helpers\<close>

lemma includes_str_sublist: "includes_str s k \<longleftrightarrow> sublist k s"
  by (induction s) (simp_all add: sublist_Cons_right)

lemma filter_user_objects:
  "list_all has_props msgs \<Longrightarrow> filter_user msgs = Inr (filter is_user msgs)"
proof (induction msgs)
  case Nil
  show ?case by simp
next
  case (Cons m ms)
  from Cons.prems have hm: "has_props m" and ms: "list_all has_props ms"
    by simp_all
  from hm have m: "m \<noteq> JUndefined" "m \<noteq> JNull"
    by (simp_all add: has_props_def)
  from m obtain r where r: "get_prop m (js ''role'') = Inr r"
    by (cases m) simp_all
  show ?case
    using Cons.IH [OF ms] r by (simp add: is_user_def)
qed

lemma find_filter_hd:
  "find P xs = (case filter P xs of [] \<Rightarrow> None | x # _ \<Rightarrow> Some x)"
  by (induction xs) simp_all

lemma match_topic_first:
  "i < length tm \<Longrightarrow> includes_str s (fst (tm ! i))
   \<Longrightarrow> \<forall>kw \<in> set (take i tm). \<not> includes_str s (fst kw)
   \<Longrightarrow> match_topic tm s = Some (snd (tm ! i))"
proof (induction tm arbitrary: i)
  case Nil
  then show ?case by simp
next
  case (Cons kw rest)
  obtain k t where kw: "kw = (k, t)" by (cases kw)
  show ?case
  proof (cases i)
    case 0
    with Cons.prems kw show ?thesis by simp
  next
    case (Suc j)
    with Cons.prems kw have "\<not> includes_str s k" by simp
    moreover from Suc Cons.prems have "match_topic rest s = Some (snd (rest ! j))"
      by (intro Cons.IH) simp_all
    ultimately show ?thesis using kw Suc by simp
  qed
qed

lemma match_topic_none:
  "\<forall>kw \<in> set tm. \<not> includes_str s (fst kw) \<Longrightarrow> match_topic tm s = None"
  by (induction tm) auto

lemma fallback_on_first_user:
  assumes "list_all has_props msgs" and "find is_user msgs = Some first"
    and "text_content first = Some c"
  shows "generateFallbackTopic rt (JArr msgs) = Inr (topic_of_content rt c)"
proof -
  from assms(2) obtain others where f: "filter is_user msgs = first # others"
    by (auto simp: find_filter_hd split: list.splits)
  then have ne: "msgs \<noteq> []" by auto
  from assms(3) have "get_prop first (js ''content'') = Inr (JStr c)"
    by (auto simp: text_content_def split: sum.splits jsval.splits)
  with f ne filter_user_objects [OF assms(1)] show ?thesis by simp
qed

lemma fallback_no_user:
  assumes "list_all has_props msgs" and "find is_user msgs = None"
  shows "generateFallbackTopic rt (JArr msgs) = Inr new_chat_label"
proof -
  from assms(2) have "filter is_user msgs = []"
    by (auto simp: find_filter_hd split: list.splits)
  with filter_user_objects [OF assms(1)] show ?thesis by simp
qed

section \<open>Facts about the guards and the body of sendMessage\<close>

lemma get_prop_has_props:
  "has_props v \<Longrightarrow> \<exists>x. get_prop v k = Inr x"
  by (cases v) (simp_all add: has_props_def)

lemma get_prop_no_props:
  "\<not> has_props v \<Longrightarrow> get_prop v k = Inl TypeError"
  by (cases v) (simp_all add: has_props_def)

lemma invalid_text_iff:
  "invalid_text v \<longleftrightarrow> (case v of JStr s \<Rightarrow> trim s = [] | _ \<Rightarrow> True)"
  by (cases v) (auto simp: invalid_text_def trim_def)

lemma sendMessage_guards:
  assumes "get_prop (body req) (js ''message'') = Inr (JStr m)" and "trim m \<noteq> []"
    and "caller req = Some uid" and "new_ObjectId rt uid = Some cid"
    and "findOne sv w (param_sessionId req) = Inr (Some session)"
    and "userId session = cid"
  shows "sendMessage rt sv req w = process_message rt sv m session w"
  using assms by (simp add: sendMessage_def invalid_text_iff)

lemma process_message_no_props:
  assumes "\<not> has_props (analyse rt sv (trim m))"
  shows "process_message rt sv m session w =
     (sendMessage_error sv TypeError,
      w\<lparr>trace := trace w @
        [Inngest_send (trim m) (messages session @ [user_turn sv w m]),
         Generate_content (Analysis_prompt (trim m)),
         Generate_content (Response_prompt (trim m))]\<rparr>)"
  using get_prop_no_props [OF assms]
  by (simp add: process_message_def Let_def emit_def)

lemma process_message_props:
  assumes "get_prop (analyse rt sv (trim m)) (js ''emotionalState'') = Inr es"
    and "get_prop (analyse rt sv (trim m)) (js ''riskLevel'') = Inr rl"
    and "evs = [Inngest_send (trim m) (messages session @ [user_turn sv w m]),
         Generate_content (Analysis_prompt (trim m)),
         Generate_content (Response_prompt (trim m))]"
    and "a = assistant_turn sv (w\<lparr>trace := trace w @ evs\<rparr>) (reply sv (trim m))
               (analyse rt sv (trim m)) (progress_of es rl)"
    and "doc = session\<lparr>messages := messages session @ [user_turn sv w m, a]\<rparr>"
  shows "process_message rt sv m session w =
     (if save_ok sv doc
      then (json 200 [(''response'', JStr (reply sv (trim m))),
                      (''message'', JStr (reply sv (trim m))),
                      (''analysis'', analyse rt sv (trim m)),
                      (''metadata'', JObj [(js ''progress'', progress_of es rl)])],
            \<lparr>store = put_session doc (store w),
             trace = trace w @ evs @ [Session_save doc True]\<rparr>)
      else (sendMessage_error sv StoreError,
            w\<lparr>trace := trace w @ evs @ [Session_save doc False]\<rparr>))"
  using assms
  by (simp add: process_message_def Let_def emit_def save_def)

lemma failure_of_json [simp]:
  "failure_of (json 400 kvs) = Some ValidationError"
  "failure_of (json 401 kvs) = Some UnauthenticatedError"
  "failure_of (json 403 kvs) = Some ForbiddenError"
  "failure_of (json 404 kvs) = Some NotFoundError"
  "failure_of (json 500 kvs) = Some ServerError"
  "failure_of (json 200 kvs) = None"
  by (simp_all add: failure_of_def json_def)

lemma status_code_json [simp]: "status_code (json c kvs) = c"
  by (simp add: json_def)

lemma failure_of_sendMessage_error [simp]:
  "failure_of (sendMessage_error sv e) = Some ServerError"
  by (simp add: sendMessage_error_def)



lemma reply_fallback:
  "generateContent sv (Response_prompt t) = None \<Longrightarrow> reply sv t = fallback_response"
  by (simp add: reply_def)

lemma assistant_turn_fields:
  "role (assistant_turn sv w t an pr) = Assistant"
  "content (assistant_turn sv w t an pr) = t"
  "metadata (assistant_turn sv w t an pr) = Some \<lparr>analysis = an, progress = pr\<rparr>"
  by (simp_all add: assistant_turn_def)

lemma sendMessage_accepted:
  assumes "get_prop (body req) (js ''message'') = Inr (JStr m)" and "trim m \<noteq> []"
    and "caller req = Some uid" and "new_ObjectId rt uid = Some cid"
    and "findOne sv w (param_sessionId req) = Inr (Some session)"
    and "userId session = cid"
    and "evs = [Inngest_send (trim m) (messages session @ [user_turn sv w m]),
                Generate_content (Analysis_prompt (trim m)),
                Generate_content (Response_prompt (trim m))]"
  shows "(\<not> has_props (analyse rt sv (trim m))
          \<and> sendMessage rt sv req w
              = (sendMessage_error sv TypeError, w\<lparr>trace := trace w @ evs\<rparr>))
       \<or> (has_props (analyse rt sv (trim m)) \<and> (\<exists>a doc pr.
            role a = Assistant \<and> content a = reply sv (trim m)
          \<and> metadata a = Some \<lparr>analysis = analyse rt sv (trim m), progress = pr\<rparr>
          \<and> doc = session\<lparr>messages := messages session @ [user_turn sv w m, a]\<rparr>
          \<and> sendMessage rt sv req w =
              (if save_ok sv doc
               then (json 200 [(''response'', JStr (reply sv (trim m))),
                               (''message'', JStr (reply sv (trim m))),
                               (''analysis'', analyse rt sv (trim m)),
                               (''metadata'', JObj [(js ''progress'', pr)])],
                     \<lparr>store = put_session doc (store w),
                      trace = trace w @ evs @ [Session_save doc True]\<rparr>)
               else (sendMessage_error sv StoreError,
                     w\<lparr>trace := trace w @ evs @ [Session_save doc False]\<rparr>))))"
proof (cases "has_props (analyse rt sv (trim m))")
  case False
  with process_message_no_props [OF False, of session w]
    sendMessage_guards [OF assms(1-6)]
  show ?thesis by (simp add: assms(7))
next
  case True
  let ?an = "analyse rt sv (trim m)"
  from get_prop_has_props [OF True] obtain es rl
    where es: "get_prop ?an (js ''emotionalState'') = Inr es"
      and rl: "get_prop ?an (js ''riskLevel'') = Inr rl"
    by blast
  let ?a = "assistant_turn sv (w\<lparr>trace := trace w @ evs\<rparr>) (reply sv (trim m)) ?an
              (progress_of es rl)"
  let ?doc = "session\<lparr>messages := messages session @ [user_turn sv w m, ?a]\<rparr>"
  have "sendMessage rt sv req w =
     (if save_ok sv ?doc
      then (json 200 [(''response'', JStr (reply sv (trim m))),
                      (''message'', JStr (reply sv (trim m))),
                      (''analysis'', ?an),
                      (''metadata'', JObj [(js ''progress'', progress_of es rl)])],
            \<lparr>store = put_session ?doc (store w),
             trace = trace w @ evs @ [Session_save ?doc True]\<rparr>)
      else (sendMessage_error sv StoreError,
            w\<lparr>trace := trace w @ evs @ [Session_save ?doc False]\<rparr>))"
    unfolding sendMessage_guards [OF assms(1-6)]
    by (rule process_message_props [OF es rl assms(7)]) simp_all
  moreover have "role ?a = Assistant" "content ?a = reply sv (trim m)"
    "metadata ?a = Some \<lparr>analysis = ?an, progress = progress_of es rl\<rparr>"
    by (simp_all only: assistant_turn_fields)
  ultimately show ?thesis using True by blast
qed

lemma sendMessage_accepted_saves:
  assumes "get_prop (body req) (js ''message'') = Inr (JStr m)" and "trim m \<noteq> []"
    and "caller req = Some uid" and "new_ObjectId rt uid = Some cid"
    and "findOne sv w (param_sessionId req) = Inr (Some session)"
    and "userId session = cid"
    and "has_props (analyse rt sv (trim m))"
  obtains a doc pr where
    "role a = Assistant" "content a = reply sv (trim m)"
    "metadata a = Some \<lparr>analysis = analyse rt sv (trim m), progress = pr\<rparr>"
    "doc = session\<lparr>messages := messages session @ [user_turn sv w m, a]\<rparr>"
    "sendMessage rt sv req w =
       (if save_ok sv doc
        then (json 200 [(''response'', JStr (reply sv (trim m))),
                        (''message'', JStr (reply sv (trim m))),
                        (''analysis'', analyse rt sv (trim m)),
                        (''metadata'', JObj [(js ''progress'', pr)])],
              \<lparr>store = put_session doc (store w),
               trace = trace w @ [Inngest_send (trim m) (messages session @ [user_turn sv w m]),
                 Generate_content (Analysis_prompt (trim m)),
                 Generate_content (Response_prompt (trim m))] @ [Session_save doc True]\<rparr>)
        else (sendMessage_error sv StoreError,
              w\<lparr>trace := trace w @ [Inngest_send (trim m) (messages session @ [user_turn sv w m]),
                 Generate_content (Analysis_prompt (trim m)),
                 Generate_content (Response_prompt (trim m))] @ [Session_save doc False]\<rparr>))"
  using sendMessage_accepted [OF assms(1-6) refl] assms(7) by blast

lemma sendMessage_accepted_throws:
  assumes "get_prop (body req) (js ''message'') = Inr (JStr m)" and "trim m \<noteq> []"
    and "caller req = Some uid" and "new_ObjectId rt uid = Some cid"
    and "findOne sv w (param_sessionId req) = Inr (Some session)"
    and "userId session = cid"
    and "\<not> has_props (analyse rt sv (trim m))"
  shows "sendMessage rt sv req w
          = (sendMessage_error sv TypeError,
             w\<lparr>trace := trace w @ [Inngest_send (trim m) (messages session @ [user_turn sv w m]),
                 Generate_content (Analysis_prompt (trim m)),
                 Generate_content (Response_prompt (trim m))]\<rparr>)"
  using sendMessage_accepted [OF assms(1-6) refl] assms(7) by blast

lemma reply_fallback_when_analysis_has_props:
  assumes "get_prop (body req) (js ''message'') = Inr (JStr m)" and "trim m \<noteq> []"
    and "caller req = Some uid" and "new_ObjectId rt uid = Some cid"
    and "findOne sv w (param_sessionId req) = Inr (Some session)"
    and "userId session = cid"
    and "generateContent sv (Response_prompt (trim m)) = None"
    and "has_props (analyse rt sv (trim m))"
  shows "\<exists>a doc pr evs.
           role a = Assistant \<and> content a = fallback_response
         \<and> doc = session\<lparr>messages := messages session @ [user_turn sv w m, a]\<rparr>
         \<and> sendMessage rt sv req w =
             (if save_ok sv doc
              then (json 200 [(''response'', JStr fallback_response),
                              (''message'', JStr fallback_response),
                              (''analysis'', analyse rt sv (trim m)),
                              (''metadata'', JObj [(js ''progress'', pr)])],
                    \<lparr>store = put_session doc (store w),
                     trace = trace w @ evs @ [Session_save doc True]\<rparr>)
              else (sendMessage_error sv StoreError,
                    w\<lparr>trace := trace w @ evs @ [Session_save doc False]\<rparr>))"
proof -
  have r: "reply sv (trim m) = fallback_response"
    by (rule reply_fallback [OF assms(7)])
  from sendMessage_accepted_saves [OF assms(1-6) assms(8), unfolded r]
  show ?thesis by metis
qed

lemma sendMessage_bad_caller_id:
  assumes "get_prop (body req) (js ''message'') = Inr (JStr m)" and "trim m \<noteq> []"
    and "caller req = Some uid" and "new_ObjectId rt uid = None"
  shows "sendMessage rt sv req w = (sendMessage_error sv BSONError, w)"
  using assms by (simp add: sendMessage_def invalid_text_iff)

section \<open>Properties of sendMessage\<close>

text \<open>
  C2. A message that is absent (\<open>undefined\<close>), not a string, or empty after trimming is
  answered with 400, the ValidationError, before anything else happens: the store and the
  trace of calls are what they were.
\<close>

theorem sendMessage_rejects_blank_message:
  assumes "get_prop (body req) (js ''message'') = Inr v"
    and "case v of JStr s \<Rightarrow> trim s = [] | _ \<Rightarrow> True"
  shows "sendMessage rt sv req w
           = (json 400 [(''message'', JStr (js ''Message cannot be empty''))], w)
       \<and> failure_of (fst (sendMessage rt sv req w)) = Some ValidationError
       \<and> snd (sendMessage rt sv req w) = w"
  using assms by (simp add: sendMessage_def invalid_text_iff)

theorem sendMessage_rejects_blank_message_witness:
  "get_prop (body (example_request (JObj [(js ''message'', JStr (js ''   ''))]) ''u1''))
       (js ''message'') = Inr (JStr (js ''   ''))
   \<and> (case JStr (js ''   '') of JStr s \<Rightarrow> trim s = [] | _ \<Rightarrow> True)
   \<and> sendMessage ascii_runtime (example_services chatty_oracle True)
         (example_request (JObj [(js ''message'', JStr (js ''   ''))]) ''u1'') example_world
       = (json 400 [(''message'', JStr (js ''Message cannot be empty''))], example_world)"
proof -
  let ?req = "example_request (JObj [(js ''message'', JStr (js ''   ''))]) ''u1''"
  have h1: "get_prop (body ?req) (js ''message'') = Inr (JStr (js ''   ''))" by code_simp
  have h2: "case JStr (js ''   '') of JStr s \<Rightarrow> trim s = [] | _ \<Rightarrow> True" by code_simp
  from sendMessage_rejects_blank_message [OF h1 h2] h1 h2 show ?thesis by blast
qed

text \<open>
  C5. A valid message from an authenticated caller, whose id denotes an ObjectId, to a
  session whose owner is another ObjectId is answered with 403, the ForbiddenError, and
  changes nothing: no message is appended, no save is attempted, no call is made. The
  owners are compared by the canonical strings of their ObjectIds, as line 92 does. (An
  id that denotes no ObjectId makes line 81 throw, which is answered with 500 and changes
  nothing either: \<open>sendMessage_bad_caller_id\<close>.)
\<close>

theorem sendMessage_forbidden_for_other_owner:
  assumes "get_prop (body req) (js ''message'') = Inr (JStr m)" and "trim m \<noteq> []"
    and "caller req = Some uid" and "new_ObjectId rt uid = Some cid"
    and "findOne sv w (param_sessionId req) = Inr (Some session)"
    and "userId session \<noteq> cid"
  shows "sendMessage rt sv req w = (json 403 [(''message'', JStr (js ''Unauthorized''))], w)
       \<and> failure_of (fst (sendMessage rt sv req w)) = Some ForbiddenError
       \<and> snd (sendMessage rt sv req w) = w"
  using assms by (simp add: sendMessage_def invalid_text_iff)

theorem sendMessage_forbidden_for_other_owner_witness:
  "get_prop (body (message_request ''hello'' stranger_id)) (js ''message'')
       = Inr (JStr (js ''hello''))
   \<and> trim (js ''hello'') \<noteq> []
   \<and> caller (message_request ''hello'' stranger_id) = Some (js stranger_id)
   \<and> new_ObjectId ascii_runtime (js stranger_id) = Some (js ''507f191e810c19729de860ea'')
   \<and> findOne (example_services chatty_oracle True) example_world
         (param_sessionId (message_request ''hello'' stranger_id))
       = Inr (Some example_session)
   \<and> userId example_session \<noteq> js ''507f191e810c19729de860ea''
   \<and> sendMessage ascii_runtime (example_services chatty_oracle True)
         (message_request ''hello'' stranger_id) example_world
       = (json 403 [(''message'', JStr (js ''Unauthorized''))], example_world)"
proof -
  let ?req = "message_request ''hello'' stranger_id"
  let ?sv = "example_services chatty_oracle True"
  have h1: "get_prop (body ?req) (js ''message'') = Inr (JStr (js ''hello''))" by code_simp
  have h2: "trim (js ''hello'') \<noteq> []" by code_simp
  have h3: "caller ?req = Some (js stranger_id)" by code_simp
  have h4: "new_ObjectId ascii_runtime (js stranger_id) = Some (js ''507f191e810c19729de860ea'')"
    by code_simp
  have h5: "findOne ?sv example_world (param_sessionId ?req) = Inr (Some example_session)"
    by code_simp
  have h6: "userId example_session \<noteq> js ''507f191e810c19729de860ea''" by code_simp
  from sendMessage_forbidden_for_other_owner [OF h1 h2 h3 h4 h5 h6] h1 h2 h3 h4 h5 h6
  show ?thesis by blast
qed



text \<open>
  C4 on the code. The reply falls back to the fixed sentence when its call throws, and
  when the analysis has properties that sentence is what is stored and returned
  (\<open>reply_fallback_when_analysis_has_props\<close>). But when the analysis call answers the JSON
  text \<open>null\<close>, \<open>JSON.parse\<close> succeeds, the fallback analysis is not taken, and building
  the assistant message reads \<open>analysis.emotionalState\<close> of \<open>null\<close> (line 215): the handler
  throws after the fallback sentence was chosen, answers 500, appends no assistant message
  and saves nothing. The run below is such a submission, with the reply call failing.
\<close>

theorem sendMessage_null_analysis_loses_reply:
  "generateContent (example_services null_oracle True) (Response_prompt (js ''hello'')) = None
   \<and> new_ObjectId ascii_runtime (js owner_id) = Some (userId example_session)
   \<and> sendMessage ascii_runtime (example_services null_oracle True)
        (message_request '' hello '' owner_id) example_world
       = (sendMessage_error (example_services null_oracle True) TypeError,
          example_world\<lparr>trace :=
            [Inngest_send (js ''hello'')
               [\<lparr>role = User, content = js ''hello'', timestamp = 0, metadata = None\<rparr>],
             Generate_content (Analysis_prompt (js ''hello'')),
             Generate_content (Response_prompt (js ''hello''))]\<rparr>)
   \<and> failure_of (fst (sendMessage ascii_runtime (example_services null_oracle True)
        (message_request '' hello '' owner_id) example_world)) = Some ServerError
   \<and> store (snd (sendMessage ascii_runtime (example_services null_oracle True)
        (message_request '' hello '' owner_id) example_world)) = [example_session]"
  by code_simp

text \<open>
  C9. The user turn and the assistant turn are committed together by a single save after
  both calls of the model: an accepted submission makes its three outgoing calls and then,
  whenever the analysis has properties, exactly one \<open>session.save()\<close>, of the stored
  document extended by the user turn and the assistant turn. When that save succeeds the
  store holds that document; when it fails the stored sessions are what they were, so
  neither turn is stored, and the answer is the server error. (When the parsed analysis is
  \<open>null\<close> the handler throws before the save: nothing is saved and nothing is stored.)
\<close>

theorem sendMessage_single_save:
  assumes "get_prop (body req) (js ''message'') = Inr (JStr m)" and "trim m \<noteq> []"
    and "caller req = Some uid" and "new_ObjectId rt uid = Some cid"
    and "findOne sv w (param_sessionId req) = Inr (Some session)"
    and "userId session = cid"
  shows "\<exists>a doc saves.
      role a = Assistant \<and> content a = reply sv (trim m)
    \<and> doc = session\<lparr>messages := messages session @ [user_turn sv w m, a]\<rparr>
    \<and> trace (snd (sendMessage rt sv req w)) =
        trace w @ [Inngest_send (trim m) (messages session @ [user_turn sv w m]),
                   Generate_content (Analysis_prompt (trim m)),
                   Generate_content (Response_prompt (trim m))] @ saves
    \<and> saves = (if has_props (analyse rt sv (trim m))
                then [Session_save doc (save_ok sv doc)] else [])
    \<and> (if saves = [Session_save doc True]
        then store (snd (sendMessage rt sv req w)) = put_session doc (store w)
           \<and> status_code (fst (sendMessage rt sv req w)) = 200
        else store (snd (sendMessage rt sv req w)) = store w
           \<and> failure_of (fst (sendMessage rt sv req w)) = Some ServerError)"
proof (cases "has_props (analyse rt sv (trim m))")
  case False
  note thrown = sendMessage_accepted_throws [OF assms False]
  let ?a = "assistant_turn sv w (reply sv (trim m)) JNull JNull"
  let ?doc = "session\<lparr>messages := messages session @ [user_turn sv w m, ?a]\<rparr>"
  have "role ?a = Assistant" "content ?a = reply sv (trim m)"
    by (simp_all only: assistant_turn_fields)
  moreover have "store (snd (sendMessage rt sv req w)) = store w"
    "failure_of (fst (sendMessage rt sv req w)) = Some ServerError"
    by (simp_all add: thrown)
  ultimately show ?thesis using False
    by (intro exI [of _ ?a] exI [of _ ?doc] exI [of _ "[]"]) (simp add: thrown)
next
  case True
  from sendMessage_accepted_saves [OF assms True]
  obtain a doc pr where s: "role a = Assistant" "content a = reply sv (trim m)"
    "doc = session\<lparr>messages := messages session @ [user_turn sv w m, a]\<rparr>"
    "sendMessage rt sv req w =
       (if save_ok sv doc
        then (json 200 [(''response'', JStr (reply sv (trim m))),
                        (''message'', JStr (reply sv (trim m))),
                        (''analysis'', analyse rt sv (trim m)),
                        (''metadata'', JObj [(js ''progress'', pr)])],
              \<lparr>store = put_session doc (store w),
               trace = trace w @ [Inngest_send (trim m) (messages session @ [user_turn sv w m]),
                 Generate_content (Analysis_prompt (trim m)),
                 Generate_content (Response_prompt (trim m))] @ [Session_save doc True]\<rparr>)
        else (sendMessage_error sv StoreError,
              w\<lparr>trace := trace w @ [Inngest_send (trim m) (messages session @ [user_turn sv w m]),
                 Generate_content (Analysis_prompt (trim m)),
                 Generate_content (Response_prompt (trim m))] @ [Session_save doc False]\<rparr>))"
    by metis
  show ?thesis
  proof (cases "save_ok sv doc")
    case ok: True
    with s True show ?thesis
      by (intro exI [of _ a] exI [of _ doc] exI [of _ "[Session_save doc True]"]) simp
  next
    case no: False
    with s True show ?thesis
      by (intro exI [of _ a] exI [of _ doc] exI [of _ "[Session_save doc False]"]) simp
  qed
qed

theorem sendMessage_single_save_witness:
  "get_prop (body (message_request '' hello '' owner_id)) (js ''message'')
       = Inr (JStr (js '' hello ''))
   \<and> trim (js '' hello '') = js ''hello''
   \<and> caller (message_request '' hello '' owner_id) = Some (js owner_id)
   \<and> new_ObjectId ascii_runtime (js owner_id) = Some (js owner_id)
   \<and> findOne (example_services chatty_oracle True) example_world
        (param_sessionId (message_request '' hello '' owner_id)) = Inr (Some example_session)
   \<and> findOne (example_services chatty_oracle False) example_world
        (param_sessionId (message_request '' hello '' owner_id)) = Inr (Some example_session)
   \<and> userId example_session = js owner_id
   \<and> (\<exists>a doc.
        role a = Assistant \<and> content a = js ''Tell me more.''
      \<and> doc = example_session\<lparr>messages := messages example_session
                 @ [user_turn (example_services chatty_oracle True) example_world
                      (js '' hello ''), a]\<rparr>
      \<and> trace (snd (sendMessage ascii_runtime (example_services chatty_oracle True)
            (message_request '' hello '' owner_id) example_world)) =
          trace example_world
          @ [Inngest_send (js ''hello'')
               (messages example_session
                @ [user_turn (example_services chatty_oracle True) example_world
                     (js '' hello '')]),
             Generate_content (Analysis_prompt (js ''hello'')),
             Generate_content (Response_prompt (js ''hello''))]
          @ [Session_save doc True]
      \<and> store (snd (sendMessage ascii_runtime (example_services chatty_oracle True)
            (message_request '' hello '' owner_id) example_world))
          = put_session doc (store example_world)
      \<and> status_code (fst (sendMessage ascii_runtime (example_services chatty_oracle True)
            (message_request '' hello '' owner_id) example_world)) = 200)
   \<and> (\<exists>a doc.
        role a = Assistant \<and> content a = js ''Tell me more.''
      \<and> doc = example_session\<lparr>messages := messages example_session
                 @ [user_turn (example_services chatty_oracle False) example_world
                      (js '' hello ''), a]\<rparr>
      \<and> trace (snd (sendMessage ascii_runtime (example_services chatty_oracle False)
            (message_request '' hello '' owner_id) example_world)) =
          trace example_world
          @ [Inngest_send (js ''hello'')
               (messages example_session
                @ [user_turn (example_services chatty_oracle False) example_world
                     (js '' hello '')]),
             Generate_content (Analysis_prompt (js ''hello'')),
             Generate_content (Response_prompt (js ''hello''))]
          @ [Session_save doc False]
      \<and> store (snd (sendMessage ascii_runtime (example_services chatty_oracle False)
            (message_request '' hello '' owner_id) example_world)) = store example_world
      \<and> failure_of (fst (sendMessage ascii_runtime (example_services chatty_oracle False)
            (message_request '' hello '' owner_id) example_world)) = Some ServerError)"
proof -
  let ?req = "message_request '' hello '' owner_id"
  let ?svTrue = "example_services chatty_oracle True"
  let ?svFalse = "example_services chatty_oracle False"
  have h1: "get_prop (body ?req) (js ''message'') = Inr (JStr (js '' hello ''))" by code_simp
  have t: "trim (js '' hello '') = js ''hello''" by code_simp
  then have h2: "trim (js '' hello '') \<noteq> []" by (simp add: js_def)
  have h3: "caller ?req = Some (js owner_id)" by code_simp
  have i: "new_ObjectId ascii_runtime (js owner_id) = Some (js owner_id)" by code_simp
  have h5: "userId example_session = js owner_id" by code_simp
  have f1: "findOne (example_services chatty_oracle True) example_world (param_sessionId ?req)
             = Inr (Some example_session)"
    by code_simp
  have f2: "findOne (example_services chatty_oracle False) example_world (param_sessionId ?req)
             = Inr (Some example_session)"
    by code_simp
  have p1: "has_props (analyse ascii_runtime (example_services chatty_oracle True)
             (trim (js '' hello '')))"
    by code_simp
  have p2: "has_props (analyse ascii_runtime (example_services chatty_oracle False)
             (trim (js '' hello '')))"
    by code_simp
  have r1: "reply (example_services chatty_oracle True) (trim (js '' hello ''))
             = js ''Tell me more.''"
    by code_simp
  have r2: "reply (example_services chatty_oracle False) (trim (js '' hello ''))
             = js ''Tell me more.''"
    by code_simp
  have s1: "save_ok (example_services chatty_oracle True) doc = True" for doc
    by (simp add: example_services_def)
  have s2: "save_ok (example_services chatty_oracle False) doc = False" for doc
    by (simp add: example_services_def)
  have yes: "\<exists>a doc.
        role a = Assistant \<and> content a = js ''Tell me more.''
      \<and> doc = example_session\<lparr>messages := messages example_session
                 @ [user_turn ?svTrue example_world (js '' hello ''), a]\<rparr>
      \<and> trace (snd (sendMessage ascii_runtime ?svTrue ?req example_world)) =
          trace example_world
          @ [Inngest_send (js ''hello'')
               (messages example_session
                @ [user_turn ?svTrue example_world (js '' hello '')]),
             Generate_content (Analysis_prompt (js ''hello'')),
             Generate_content (Response_prompt (js ''hello''))]
          @ [Session_save doc True]
      \<and> store (snd (sendMessage ascii_runtime ?svTrue ?req example_world))
          = put_session doc (store example_world)
      \<and> status_code (fst (sendMessage ascii_runtime ?svTrue ?req example_world)) = 200"
  proof -
    from sendMessage_single_save [OF h1 h2 h3 i f1 h5]
    obtain a doc saves where
      a: "role a = Assistant" "content a = reply ?svTrue (trim (js '' hello ''))"
      and d: "doc = example_session\<lparr>messages := messages example_session
                 @ [user_turn ?svTrue example_world (js '' hello ''), a]\<rparr>"
      and tr: "trace (snd (sendMessage ascii_runtime ?svTrue ?req example_world)) =
          trace example_world
          @ [Inngest_send (trim (js '' hello ''))
               (messages example_session
                @ [user_turn ?svTrue example_world (js '' hello '')]),
             Generate_content (Analysis_prompt (trim (js '' hello ''))),
             Generate_content (Response_prompt (trim (js '' hello '')))]
          @ saves"
      and sv: "saves = (if has_props (analyse ascii_runtime ?svTrue (trim (js '' hello '')))
                then [Session_save doc (save_ok ?svTrue doc)] else [])"
      and st: "if saves = [Session_save doc True]
        then store (snd (sendMessage ascii_runtime ?svTrue ?req example_world))
               = put_session doc (store example_world)
           \<and> status_code (fst (sendMessage ascii_runtime ?svTrue ?req example_world)) = 200
        else store (snd (sendMessage ascii_runtime ?svTrue ?req example_world))
               = store example_world
           \<and> failure_of (fst (sendMessage ascii_runtime ?svTrue ?req example_world))
               = Some ServerError"
      by blast
    from sv have sv': "saves = [Session_save doc True]"
      by (simp only: p1 s1 if_True)
    from st have st': "store (snd (sendMessage ascii_runtime ?svTrue ?req example_world))
          = put_session doc (store example_world)
      \<and> status_code (fst (sendMessage ascii_runtime ?svTrue ?req example_world)) = 200"
      by (simp add: sv')
    from a(2) have c: "content a = js ''Tell me more.''" by (simp only: r1)
    from tr have tr': "trace (snd (sendMessage ascii_runtime ?svTrue ?req example_world)) =
          trace example_world
          @ [Inngest_send (js ''hello'')
               (messages example_session
                @ [user_turn ?svTrue example_world (js '' hello '')]),
             Generate_content (Analysis_prompt (js ''hello'')),
             Generate_content (Response_prompt (js ''hello''))]
          @ [Session_save doc True]"
      by (simp only: sv' t)
    from a(1) c d tr' st' show ?thesis by blast
  qed
  have no: "\<exists>a doc.
        role a = Assistant \<and> content a = js ''Tell me more.''
      \<and> doc = example_session\<lparr>messages := messages example_session
                 @ [user_turn ?svFalse example_world (js '' hello ''), a]\<rparr>
      \<and> trace (snd (sendMessage ascii_runtime ?svFalse ?req example_world)) =
          trace example_world
          @ [Inngest_send (js ''hello'')
               (messages example_session
                @ [user_turn ?svFalse example_world (js '' hello '')]),
             Generate_content (Analysis_prompt (js ''hello'')),
             Generate_content (Response_prompt (js ''hello''))]
          @ [Session_save doc False]
      \<and> store (snd (sendMessage ascii_runtime ?svFalse ?req example_world)) = store example_world
      \<and> failure_of (fst (sendMessage ascii_runtime ?svFalse ?req example_world)) = Some ServerError"
  proof -
    from sendMessage_single_save [OF h1 h2 h3 i f2 h5]
    obtain a doc saves where
      a: "role a = Assistant" "content a = reply ?svFalse (trim (js '' hello ''))"
      and d: "doc = example_session\<lparr>messages := messages example_session
                 @ [user_turn ?svFalse example_world (js '' hello ''), a]\<rparr>"
      and tr: "trace (snd (sendMessage ascii_runtime ?svFalse ?req example_world)) =
          trace example_world
          @ [Inngest_send (trim (js '' hello ''))
               (messages example_session
                @ [user_turn ?svFalse example_world (js '' hello '')]),
             Generate_content (Analysis_prompt (trim (js '' hello ''))),
             Generate_content (Response_prompt (trim (js '' hello '')))]
          @ saves"
      and sv: "saves = (if has_props (analyse ascii_runtime ?svFalse (trim (js '' hello '')))
                then [Session_save doc (save_ok ?svFalse doc)] else [])"
      and st: "if saves = [Session_save doc True]
        then store (snd (sendMessage ascii_runtime ?svFalse ?req example_world))
               = put_session doc (store example_world)
           \<and> status_code (fst (sendMessage ascii_runtime ?svFalse ?req example_world)) = 200
        else store (snd (sendMessage ascii_runtime ?svFalse ?req example_world))
               = store example_world
           \<and> failure_of (fst (sendMessage ascii_runtime ?svFalse ?req example_world))
               = Some ServerError"
      by blast
    from sv have sv': "saves = [Session_save doc False]"
      by (simp only: p2 s2 if_True)
    from st have st': "store (snd (sendMessage ascii_runtime ?svFalse ?req example_world)) = store example_world
      \<and> failure_of (fst (sendMessage ascii_runtime ?svFalse ?req example_world)) = Some ServerError"
      by (simp add: sv')
    from a(2) have c: "content a = js ''Tell me more.''" by (simp only: r2)
    from tr have tr': "trace (snd (sendMessage ascii_runtime ?svFalse ?req example_world)) =
          trace example_world
          @ [Inngest_send (js ''hello'')
               (messages example_session
                @ [user_turn ?svFalse example_world (js '' hello '')]),
             Generate_content (Analysis_prompt (js ''hello'')),
             Generate_content (Response_prompt (js ''hello''))]
          @ [Session_save doc False]"
      by (simp only: sv' t)
    from a(1) c d tr' st' show ?thesis by blast
  qed
  from h1 t h3 i f1 f2 h5 yes no show ?thesis by blast
qed

text \<open>
  C1, as the code has it. The user turn is pushed onto the message list in memory before
  either call of the model (the history sent to Inngest already ends with it), but it is
  not persisted before them: the calls of an accepted submission whose analysis has
  properties are \<open>inngest.send\<close>, the analysis call, the reply call, and only then the one
  save, of the stored document extended by the user turn and the assistant turn. So the
  order the specification asks for does not hold; when the save succeeds the store holds
  that document, and when it fails the answer is the server error, the store is unchanged,
  and both calls of the model have been made.
\<close>

theorem sendMessage_oracle_before_save:
  assumes "get_prop (body req) (js ''message'') = Inr (JStr m)" and "trim m \<noteq> []"
    and "caller req = Some uid" and "new_ObjectId rt uid = Some cid"
    and "findOne sv w (param_sessionId req) = Inr (Some session)"
    and "userId session = cid"
    and "has_props (analyse rt sv (trim m))"
  shows "\<exists>a doc evs.
      role a = Assistant
    \<and> doc = session\<lparr>messages := messages session @ [user_turn sv w m, a]\<rparr>
    \<and> evs = [Inngest_send (trim m) (messages session @ [user_turn sv w m]),
             Generate_content (Analysis_prompt (trim m)),
             Generate_content (Response_prompt (trim m))]
    \<and> trace (snd (sendMessage rt sv req w))
        = trace w @ evs @ [Session_save doc (save_ok sv doc)]
    \<and> \<not> committed_before_oracle (user_turn sv w m)
          (evs @ [Session_save doc (save_ok sv doc)])
    \<and> (if save_ok sv doc
        then store (snd (sendMessage rt sv req w)) = put_session doc (store w)
           \<and> status_code (fst (sendMessage rt sv req w)) = 200
        else store (snd (sendMessage rt sv req w)) = store w
           \<and> failure_of (fst (sendMessage rt sv req w)) = Some ServerError)"
proof -
  let ?evs = "[Inngest_send (trim m) (messages session @ [user_turn sv w m]),
               Generate_content (Analysis_prompt (trim m)),
               Generate_content (Response_prompt (trim m))]"
  from sendMessage_accepted_saves [OF assms]
  obtain a doc pr where s: "role a = Assistant"
    "doc = session\<lparr>messages := messages session @ [user_turn sv w m, a]\<rparr>"
    "sendMessage rt sv req w =
       (if save_ok sv doc
        then (json 200 [(''response'', JStr (reply sv (trim m))),
                        (''message'', JStr (reply sv (trim m))),
                        (''analysis'', analyse rt sv (trim m)),
                        (''metadata'', JObj [(js ''progress'', pr)])],
              \<lparr>store = put_session doc (store w),
               trace = trace w @ ?evs @ [Session_save doc True]\<rparr>)
        else (sendMessage_error sv StoreError,
              w\<lparr>trace := trace w @ ?evs @ [Session_save doc False]\<rparr>))"
    by metis
  have nc: "\<not> committed_before_oracle (user_turn sv w m)
          (?evs @ [Session_save doc (save_ok sv doc)])"
    by simp
  show ?thesis
  proof (cases "save_ok sv doc")
    case True
    with s nc show ?thesis
      by (intro exI [of _ a] exI [of _ doc] exI [of _ ?evs]) simp
  next
    case False
    with s nc show ?thesis
      by (intro exI [of _ a] exI [of _ doc] exI [of _ ?evs]) simp
  qed
qed

theorem sendMessage_oracle_before_save_witness:
  "get_prop (body (message_request '' hello '' owner_id)) (js ''message'')
       = Inr (JStr (js '' hello ''))
   \<and> trim (js '' hello '') \<noteq> []
   \<and> caller (message_request '' hello '' owner_id) = Some (js owner_id)
   \<and> new_ObjectId ascii_runtime (js owner_id) = Some (js owner_id)
   \<and> findOne (example_services chatty_oracle True) example_world
        (param_sessionId (message_request '' hello '' owner_id)) = Inr (Some example_session)
   \<and> userId example_session = js owner_id
   \<and> has_props (analyse ascii_runtime (example_services chatty_oracle True)
         (trim (js '' hello '')))
   \<and> (\<exists>a doc evs.
        role a = Assistant
      \<and> doc = example_session\<lparr>messages := messages example_session
                 @ [user_turn (example_services chatty_oracle True) example_world
                      (js '' hello ''), a]\<rparr>
      \<and> evs = [Inngest_send (trim (js '' hello ''))
                 (messages example_session
                  @ [user_turn (example_services chatty_oracle True) example_world
                       (js '' hello '')]),
               Generate_content (Analysis_prompt (trim (js '' hello ''))),
               Generate_content (Response_prompt (trim (js '' hello '')))]
      \<and> trace (snd (sendMessage ascii_runtime (example_services chatty_oracle True)
            (message_request '' hello '' owner_id) example_world))
          = trace example_world @ evs
            @ [Session_save doc (save_ok (example_services chatty_oracle True) doc)]
      \<and> \<not> committed_before_oracle
            (user_turn (example_services chatty_oracle True) example_world (js '' hello ''))
            (evs @ [Session_save doc (save_ok (example_services chatty_oracle True) doc)])
      \<and> (if save_ok (example_services chatty_oracle True) doc
          then store (snd (sendMessage ascii_runtime (example_services chatty_oracle True)
                 (message_request '' hello '' owner_id) example_world))
                = put_session doc (store example_world)
             \<and> status_code (fst (sendMessage ascii_runtime
                 (example_services chatty_oracle True)
                 (message_request '' hello '' owner_id) example_world)) = 200
          else store (snd (sendMessage ascii_runtime (example_services chatty_oracle True)
                 (message_request '' hello '' owner_id) example_world)) = store example_world
             \<and> failure_of (fst (sendMessage ascii_runtime
                 (example_services chatty_oracle True)
                 (message_request '' hello '' owner_id) example_world)) = Some ServerError))"
proof -
  let ?sv = "example_services chatty_oracle True"
  let ?req = "message_request '' hello '' owner_id"
  have h1: "get_prop (body ?req) (js ''message'') = Inr (JStr (js '' hello ''))" by code_simp
  have h2: "trim (js '' hello '') \<noteq> []" by code_simp
  have h3: "caller ?req = Some (js owner_id)" by code_simp
  have i: "new_ObjectId ascii_runtime (js owner_id) = Some (js owner_id)" by code_simp
  have h4: "findOne ?sv example_world (param_sessionId ?req) = Inr (Some example_session)"
    by code_simp
  have h5: "userId example_session = js owner_id" by code_simp
  have h6: "has_props (analyse ascii_runtime ?sv (trim (js '' hello '')))" by code_simp
  from sendMessage_oracle_before_save [OF h1 h2 h3 i h4 h5 h6] h1 h2 h3 i h4 h5 h6
  show ?thesis by blast
qed

text \<open>
  C1 as stated fails on a plain run: with a store that accepts the save, the model is
  called twice before anything is saved; with a store that rejects it, the operation fails
  and the analysis call has been made all the same.
\<close>

theorem sendMessage_commit_first_counterexample:
  "take 3 (trace (snd (sendMessage ascii_runtime (example_services silent_oracle True)
        (message_request ''hi'' owner_id) example_world)))
     = [Inngest_send (js ''hi'')
          [\<lparr>role = User, content = js ''hi'', timestamp = 0, metadata = None\<rparr>],
        Generate_content (Analysis_prompt (js ''hi'')),
        Generate_content (Response_prompt (js ''hi''))]
   \<and> \<not> committed_before_oracle
         \<lparr>role = User, content = js ''hi'', timestamp = 0, metadata = None\<rparr>
         (trace (snd (sendMessage ascii_runtime (example_services silent_oracle True)
            (message_request ''hi'' owner_id) example_world)))
   \<and> status_code (fst (sendMessage ascii_runtime (example_services silent_oracle True)
        (message_request ''hi'' owner_id) example_world)) = 200
   \<and> failure_of (fst (sendMessage ascii_runtime (example_services silent_oracle False)
        (message_request ''hi'' owner_id) example_world))
       = Some ServerError
   \<and> Generate_content (Analysis_prompt (js ''hi''))
       \<in> set (trace (snd (sendMessage ascii_runtime (example_services silent_oracle False)
            (message_request ''hi'' owner_id) example_world)))"
  by code_simp

section \<open>Facts about the topic handlers\<close>

lemma filter_user_throws:
  "\<not> list_all has_props msgs \<Longrightarrow> filter_user msgs = Inl TypeError"
proof (induction msgs)
  case Nil
  then show ?case by simp
next
  case (Cons m ms)
  show ?case
  proof (cases "has_props m")
    case False
    then show ?thesis by (simp add: get_prop_no_props)
  next
    case True
    with Cons.prems have "\<not> list_all has_props ms" by simp
    from Cons.IH [OF this] get_prop_has_props [OF True, of "js ''role''"]
    show ?thesis by auto
  qed
qed

lemma generateFallbackTopic_throws:
  assumes "\<not> (list_all has_props msgs
             \<and> (case find is_user msgs of
                   None \<Rightarrow> True
                 | Some first \<Rightarrow> text_content first \<noteq> None))"
  shows "generateFallbackTopic rt (JArr msgs) = Inl TypeError"
proof (cases "list_all has_props msgs")
  case False
  then have "msgs \<noteq> []" by auto
  with filter_user_throws [OF False] show ?thesis by simp
next
  case True
  with assms obtain first where f: "find is_user msgs = Some first"
    and t: "text_content first = None"
    by (auto split: option.splits)
  from f obtain others where fl: "filter is_user msgs = first # others"
    by (auto simp: find_filter_hd split: list.splits)
  then have ne: "msgs \<noteq> []" by auto
  from t have "(case get_prop first (js ''content'') of
                  Inr (JStr c) \<Rightarrow> Inr (topic_of_content rt c)
                | _ \<Rightarrow> Inl TypeError) = Inl TypeError"
    by (auto simp: text_content_def split: sum.splits jsval.splits)
  with fl ne filter_user_objects [OF True] show ?thesis by simp
qed

lemma transcript_line_ok:
  "transcript_line msg = Inr l \<Longrightarrow> has_props msg \<and> text_content msg \<noteq> None"
  by (cases msg)
     (auto simp: transcript_line_def has_props_def text_content_def
           split: sum.splits jsval.splits option.splits if_splits)

lemma transcript_ok:
  "transcript msgs = Inr ls \<Longrightarrow> list_all (\<lambda>m. has_props m \<and> text_content m \<noteq> None) msgs"
proof (induction msgs arbitrary: ls)
  case Nil
  show ?case by simp
next
  case (Cons m ms)
  from Cons.prems obtain l ls' where l: "transcript_line m = Inr l"
    and ls': "transcript ms = Inr ls'"
    by (auto split: sum.splits)
  from transcript_line_ok [OF l] Cons.IH [OF ls'] show ?case by simp
qed

lemma fallback_total_after_transcript:
  assumes "transcript msgs = Inr ls"
  shows "\<exists>t. generateFallbackTopic rt (JArr msgs) = Inr t"
proof -
  from transcript_ok [OF assms]
  have all: "list_all (\<lambda>m. has_props m \<and> text_content m \<noteq> None) msgs" .
  then have hp: "list_all has_props msgs" by (simp add: list_all_iff)
  show ?thesis
  proof (cases "find is_user msgs")
    case None
    from fallback_no_user [OF hp None, of rt] show ?thesis by blast
  next
    case (Some first)
    then have "first \<in> set msgs" by (auto simp: find_Some_iff)
    with all obtain c where "text_content first = Some c" by (auto simp: list_all_iff)
    from fallback_on_first_user [OF hp Some this, of rt] show ?thesis by blast
  qed
qed

lemma generateTopic_catch_eq:
  "get_prop (body req) (js ''messages'') = Inr v \<Longrightarrow>
   generateTopic_catch rt req =
     (case generateFallbackTopic rt v of
        Inr t \<Rightarrow> json 200 [(''topic'', JStr t)]
      | Inl e \<Rightarrow> json 500 [(''error'', JStr (js ''Failed to generate topic'')),
                             (''topic'', JStr ultimate_fallback_topic)])"
  by (simp add: generateTopic_catch_def split: sum.splits)

lemma generateTopic_ultimate_fallback_example:
  "generateTopic ascii_runtime (example_services chatty_oracle True)
      (messages_request (JArr [JObj [(js ''role'', JStr (js ''user'')), (js ''content'', JNum 5)]]))
      example_world
     = (json 500 [(''error'', JStr (js ''Failed to generate topic'')),
                  (''topic'', JStr ultimate_fallback_topic)], example_world)"
  by code_simp

lemma find_put_session:
  "find (\<lambda>d. sessionId d = sessionId doc) (put_session doc st) = Some doc"
  by (induction st) simp_all

lemma findOne_sessionId:
  "findOne sv w sid = Inr (Some session) \<Longrightarrow> find_ok sv \<and> sessionId session = sid"
  by (auto simp: findOne_def find_Some_iff split: if_splits)

lemma failure_of_updateSessionTopic_error [simp]:
  "failure_of (updateSessionTopic_error sv e) = Some ServerError"
  by (simp add: updateSessionTopic_error_def)

lemma updateSessionTopic_owner:
  assumes "get_prop (body req) (js ''topic'') = Inr (JStr s)" and "trim s \<noteq> []"
    and "caller req = Some uid" and "new_ObjectId rt uid = Some cid"
    and "findOne sv w (param_sessionId req) = Inr (Some session)"
    and "userId session = cid"
    and "save_ok sv (session\<lparr>topic := Some (take 100 (trim s))\<rparr>)"
  shows "updateSessionTopic rt sv req w =
     (json 200 [(''success'', JBool True),
                (''topic'', JStr (take 100 (trim s))),
                (''message'', JStr (js ''Topic updated successfully''))],
      \<lparr>store = put_session (session\<lparr>topic := Some (take 100 (trim s))\<rparr>) (store w),
       trace = trace w @ [Session_save (session\<lparr>topic := Some (take 100 (trim s))\<rparr>) True]\<rparr>)"
  using assms
  by (simp add: updateSessionTopic_def invalid_text_iff save_def substring0_def Let_def)

lemma updateSessionTopic_bad_caller_id:
  assumes "get_prop (body req) (js ''topic'') = Inr (JStr s)" and "trim s \<noteq> []"
    and "caller req = Some uid" and "new_ObjectId rt uid = None"
  shows "updateSessionTopic rt sv req w = (updateSessionTopic_error sv BSONError, w)"
  using assms by (simp add: updateSessionTopic_def invalid_text_iff)

section \<open>Properties of the fallback topic\<close>

text \<open>
  C6, as the code has it. \<open>generateFallbackTopic\<close> is a function of the array (and of the
  engine's case mappings), so the same array gives the same result on every call. It
  returns a topic for every array whose elements all have properties and whose first
  element of role \<open>user\<close>, if there is one, has a string content; this covers every list
  of messages of the data model. For the empty array and for such an array without an
  element of role \<open>user\<close> the topic is the generic new-chat label.
\<close>

theorem fallback_topic_total_on_text_messages:
  assumes "list_all has_props msgs"
    and "case find is_user msgs of None \<Rightarrow> True | Some first \<Rightarrow> text_content first \<noteq> None"
  shows "(\<exists>t. generateFallbackTopic rt (JArr msgs) = Inr t)
       \<and> (msgs = [] \<or> find is_user msgs = None
            \<longrightarrow> generateFallbackTopic rt (JArr msgs) = Inr new_chat_label)"
proof (cases "find is_user msgs")
  case None
  with fallback_no_user [OF assms(1) None, of rt] show ?thesis by simp
next
  case (Some first)
  with assms(2) obtain c where "text_content first = Some c" by auto
  from fallback_on_first_user [OF assms(1) Some this, of rt] Some show ?thesis by auto
qed

theorem fallback_topic_total_on_text_messages_witness:
  "list_all has_props [assistant_msg ''Hello'', user_msg ''I can't sleep at night'']
   \<and> find is_user [assistant_msg ''Hello'', user_msg ''I can't sleep at night'']
       = Some (user_msg ''I can't sleep at night'')
   \<and> text_content (user_msg ''I can't sleep at night'') \<noteq> None
   \<and> (\<exists>t. generateFallbackTopic ascii_runtime
              (JArr [assistant_msg ''Hello'', user_msg ''I can't sleep at night'']) = Inr t)
   \<and> list_all has_props [assistant_msg ''Hello'']
   \<and> find is_user [assistant_msg ''Hello''] = None
   \<and> generateFallbackTopic ascii_runtime (JArr [assistant_msg ''Hello'']) = Inr new_chat_label"
proof -
  let ?ms = "[assistant_msg ''Hello'', user_msg ''I can't sleep at night'']"
  have a1: "list_all has_props ?ms" by code_simp
  have a2: "find is_user ?ms = Some (user_msg ''I can't sleep at night'')" by code_simp
  have a3: "text_content (user_msg ''I can't sleep at night'') \<noteq> None" by code_simp
  have a4: "case find is_user ?ms of None \<Rightarrow> True | Some first \<Rightarrow> text_content first \<noteq> None"
    by (simp only: a2 a3 option.case) simp
  have b1: "list_all has_props [assistant_msg ''Hello'']" by code_simp
  have b2: "find is_user [assistant_msg ''Hello''] = None" by code_simp
  have b3: "case find is_user [assistant_msg ''Hello''] of
              None \<Rightarrow> True | Some first \<Rightarrow> text_content first \<noteq> None"
    by (simp only: b2 option.case)
  from fallback_topic_total_on_text_messages [OF a1 a4, of ascii_runtime]
  have c1: "\<exists>t. generateFallbackTopic ascii_runtime (JArr ?ms) = Inr t" by blast
  from fallback_topic_total_on_text_messages [OF b1 b3, of ascii_runtime] b2
  have c2: "generateFallbackTopic ascii_runtime (JArr [assistant_msg ''Hello'']) = Inr new_chat_label"
    by blast
  from a1 a2 a3 b1 b2 c1 c2 show ?thesis by blast
qed

text \<open>
  C6 as stated fails, since the parameter is \<open>any[]\<close> and takes \<open>req.body.messages\<close> as
  it came in: on a first user message whose content is a number, \<open>toLowerCase\<close> is
  undefined and the function throws. (\<open>generateTopic\<close> calls it inside a \<open>try\<close> for that
  reason.)
\<close>

theorem fallback_topic_throws_counterexample:
  "generateFallbackTopic ascii_runtime
     (JArr [JObj [(js ''role'', JStr (js ''user'')), (js ''content'', JNum 5)]])
     = Inl TypeError"
  by code_simp

text \<open>
  C10. Keyword matching is containment in the whole lower-cased content of the first
  message whose role is \<open>user\<close>: the first entry of \<open>topicMap\<close>, in its enumeration order,
  whose keyword occurs anywhere in that content gives the label. Since only the lower-cased
  content is looked at, the casing of the message does not matter, and a keyword inside a
  longer word counts: \<open>JOBLESS\<close> holds \<open>job\<close>.
\<close>

theorem fallback_topic_first_keyword_wins:
  assumes "list_all has_props msgs"
    and "find is_user msgs = Some first"
    and "text_content first = Some c"
    and "i < length topicMap"
    and "sublist (fst (topicMap ! i)) (toLowerCase rt c)"
    and "\<forall>kw \<in> set (take i topicMap). \<not> sublist (fst kw) (toLowerCase rt c)"
  shows "generateFallbackTopic rt (JArr msgs) = Inr (snd (topicMap ! i))"
proof -
  have "match_topic topicMap (toLowerCase rt c) = Some (snd (topicMap ! i))"
    using assms(4-6) by (intro match_topic_first) (simp_all add: includes_str_sublist)
  then have "topic_of_content rt c = snd (topicMap ! i)"
    by (simp add: topic_of_content_def)
  with fallback_on_first_user [OF assms(1-3)] show ?thesis by simp
qed

theorem fallback_topic_first_keyword_wins_witness:
  "list_all has_props [assistant_msg ''Hello'', user_msg ''I am JOBLESS'', user_msg ''sad'']
   \<and> find is_user [assistant_msg ''Hello'', user_msg ''I am JOBLESS'', user_msg ''sad'']
       = Some (user_msg ''I am JOBLESS'')
   \<and> text_content (user_msg ''I am JOBLESS'') = Some (js ''I am JOBLESS'')
   \<and> 13 < length topicMap
   \<and> fst (topicMap ! 13) = js ''job''
   \<and> toLowerCase ascii_runtime (js ''I am JOBLESS'') = js ''i am jobless''
   \<and> sublist (fst (topicMap ! 13)) (toLowerCase ascii_runtime (js ''I am JOBLESS''))
   \<and> list_all (\<lambda>kw. \<not> sublist (fst kw) (toLowerCase ascii_runtime (js ''I am JOBLESS'')))
         (take 13 topicMap)
   \<and> generateFallbackTopic ascii_runtime
         (JArr [assistant_msg ''Hello'', user_msg ''I am JOBLESS'', user_msg ''sad''])
       = Inr ([55357, 56508] @ js '' Work Stress'')"
proof -
  let ?msgs = "[assistant_msg ''Hello'', user_msg ''I am JOBLESS'', user_msg ''sad'']"
  have h1: "list_all has_props ?msgs" by code_simp
  have h2: "find is_user ?msgs = Some (user_msg ''I am JOBLESS'')" by code_simp
  have h3: "text_content (user_msg ''I am JOBLESS'') = Some (js ''I am JOBLESS'')" by code_simp
  have h4: "13 < length topicMap" by code_simp
  have h5: "sublist (fst (topicMap ! 13)) (toLowerCase ascii_runtime (js ''I am JOBLESS''))"
    by code_simp
  have h6': "list_all (\<lambda>kw. \<not> sublist (fst kw) (toLowerCase ascii_runtime (js ''I am JOBLESS'')))
         (take 13 topicMap)"
    by code_simp
  then have h6: "\<forall>kw \<in> set (take 13 topicMap).
         \<not> sublist (fst kw) (toLowerCase ascii_runtime (js ''I am JOBLESS''))"
    by (simp only: list_all_iff)
  have k: "fst (topicMap ! 13) = js ''job''" by code_simp
  have l: "toLowerCase ascii_runtime (js ''I am JOBLESS'') = js ''i am jobless''" by code_simp
  have t: "snd (topicMap ! 13) = [55357, 56508] @ js '' Work Stress''" by code_simp
  from fallback_topic_first_keyword_wins [OF h1 h2 h3 h4 h5 h6] t
  have "generateFallbackTopic ascii_runtime (JArr ?msgs) = Inr ([55357, 56508] @ js '' Work Stress'')"
    by simp
  with h1 h2 h3 h4 h5 h6' k l show ?thesis by blast
qed

section \<open>Properties of generateTopic and updateSessionTopic\<close>

text \<open>
  C7, as the code has it. With \<open>messages\<close> missing, not an array or empty the answer is
  400, the ValidationError. With a non-empty array and no caller identity it is 401, the
  UnauthenticatedError and not a ValidationError. With a non-empty array and a caller:
  when building the prompt throws, or the call of the model throws, or the topic it
  answers is empty or longer than 50 code units once quotes and surrounding blanks are
  gone, the answer carries \<open>generateFallbackTopic(messages)\<close>, and the hardcoded topic
  with status 500 if that call throws too.
\<close>

theorem generateTopic_failures_and_fallback:
  assumes "get_prop (body req) (js ''messages'') = Inr v"
  shows "((case v of JArr (x # xs) \<Rightarrow> False | _ \<Rightarrow> True) \<longrightarrow>
            generateTopic rt sv req w
              = (json 400 [(''error'',
                   JStr (js ''Messages array is required and cannot be empty''))], w)
          \<and> failure_of (fst (generateTopic rt sv req w)) = Some ValidationError)
       \<and> ((case v of JArr (x # xs) \<Rightarrow> True | _ \<Rightarrow> False) \<and> caller req = None \<longrightarrow>
            generateTopic rt sv req w = (json 401 [(''message'', JStr (js ''Unauthorized''))], w)
          \<and> failure_of (fst (generateTopic rt sv req w)) = Some UnauthenticatedError)
       \<and> (\<forall>ms. v = JArr ms \<and> ms \<noteq> [] \<and> caller req \<noteq> None
             \<and> (case transcript ms of
                   Inl e \<Rightarrow> True
                 | Inr ls \<Rightarrow>
                     (case generateContent sv (Topic_prompt ls) of
                        None \<Rightarrow> True
                      | Some raw \<Rightarrow> clean_topic raw = [] \<or> length (clean_topic raw) > 50))
           \<longrightarrow> fst (generateTopic rt sv req w) =
                 (case generateFallbackTopic rt (JArr ms) of
                    Inr t \<Rightarrow> json 200 [(''topic'', JStr t)]
                  | Inl e \<Rightarrow> json 500 [(''error'', JStr (js ''Failed to generate topic'')),
                                         (''topic'', JStr ultimate_fallback_topic)]))"
proof (intro conjI impI allI)
  assume "case v of JArr (x # xs) \<Rightarrow> False | _ \<Rightarrow> True"
  then show "generateTopic rt sv req w
      = (json 400 [(''error'',
           JStr (js ''Messages array is required and cannot be empty''))], w)"
    using assms by (auto simp: generateTopic_def split: jsval.splits list.splits)
  then show "failure_of (fst (generateTopic rt sv req w)) = Some ValidationError"
    by simp
next
  assume "(case v of JArr (x # xs) \<Rightarrow> True | _ \<Rightarrow> False) \<and> caller req = None"
  then show "generateTopic rt sv req w
      = (json 401 [(''message'', JStr (js ''Unauthorized''))], w)"
    using assms by (auto simp: generateTopic_def split: jsval.splits list.splits)
  then show "failure_of (fst (generateTopic rt sv req w)) = Some UnauthenticatedError"
    by simp
next
  fix ms
  assume a: "v = JArr ms \<and> ms \<noteq> [] \<and> caller req \<noteq> None
             \<and> (case transcript ms of
                   Inl e \<Rightarrow> True
                 | Inr ls \<Rightarrow>
                     (case generateContent sv (Topic_prompt ls) of
                        None \<Rightarrow> True
                      | Some raw \<Rightarrow> clean_topic raw = [] \<or> length (clean_topic raw) > 50))"
  then obtain uid where uid: "caller req = Some uid" by auto
  from a assms have b: "get_prop (body req) (js ''messages'') = Inr (JArr ms)" by simp
  note c = generateTopic_catch_eq [OF b, of rt]
  from a show "fst (generateTopic rt sv req w) =
                 (case generateFallbackTopic rt (JArr ms) of
                    Inr t \<Rightarrow> json 200 [(''topic'', JStr t)]
                  | Inl e \<Rightarrow> json 500 [(''error'', JStr (js ''Failed to generate topic'')),
                                         (''topic'', JStr ultimate_fallback_topic)])"
    unfolding generateTopic_def b c uid
    by (auto simp: Let_def split: sum.splits option.splits)
qed

theorem generateTopic_failures_and_fallback_witness:
  "get_prop (body (messages_request (JArr [user_msg ''I can't sleep at night''])))
       (js ''messages'') = Inr (JArr [user_msg ''I can't sleep at night''])
   \<and> caller (messages_request (JArr [user_msg ''I can't sleep at night''])) = Some (js ''u1'')
   \<and> transcript [user_msg ''I can't sleep at night'']
       = Inr [(JStr (js ''user''), js ''I can't sleep at night'')]
   \<and> generateContent (example_services silent_oracle True)
         (Topic_prompt [(JStr (js ''user''), js ''I can't sleep at night'')]) = None
   \<and> fst (generateTopic ascii_runtime (example_services silent_oracle True)
         (messages_request (JArr [user_msg ''I can't sleep at night''])) example_world)
       = json 200 [(''topic'', JStr ([55357, 56884] @ js '' Sleep Issues''))]
   \<and> get_prop (body (messages_request JNull)) (js ''messages'') = Inr JNull
   \<and> generateTopic ascii_runtime (example_services silent_oracle True)
         (messages_request JNull) example_world
       = (json 400 [(''error'',
            JStr (js ''Messages array is required and cannot be empty''))], example_world)"
proof -
  let ?ms = "[user_msg ''I can't sleep at night'']"
  let ?sv = "example_services silent_oracle True"
  have h1: "get_prop (body (messages_request (JArr ?ms))) (js ''messages'') = Inr (JArr ?ms)"
    by code_simp
  have h2: "caller (messages_request (JArr ?ms)) = Some (js ''u1'')" by code_simp
  have h3: "transcript ?ms = Inr [(JStr (js ''user''), js ''I can't sleep at night'')]"
    by code_simp
  have h4: "generateContent ?sv
      (Topic_prompt [(JStr (js ''user''), js ''I can't sleep at night'')]) = None"
    by code_simp
  have f: "generateFallbackTopic ascii_runtime (JArr ?ms)
      = Inr ([55357, 56884] @ js '' Sleep Issues'')"
    by code_simp
  have ne: "?ms \<noteq> []" by simp
  have pre: "JArr ?ms = JArr ?ms \<and> ?ms \<noteq> [] \<and> caller (messages_request (JArr ?ms)) \<noteq> None
     \<and> (case transcript ?ms of
           Inl e \<Rightarrow> True
         | Inr ls \<Rightarrow>
             (case generateContent ?sv (Topic_prompt ls) of
                None \<Rightarrow> True
              | Some raw \<Rightarrow> clean_topic raw = [] \<or> length (clean_topic raw) > 50))"
    by (simp only: h2 h3 h4 sum.case option.case) simp
  from generateTopic_failures_and_fallback [OF h1, of ascii_runtime ?sv example_world] pre
  have "fst (generateTopic ascii_runtime ?sv (messages_request (JArr ?ms)) example_world) =
          (case generateFallbackTopic ascii_runtime (JArr ?ms) of
             Inr t \<Rightarrow> json 200 [(''topic'', JStr t)]
           | Inl e \<Rightarrow> json 500 [(''error'', JStr (js ''Failed to generate topic'')),
                                  (''topic'', JStr ultimate_fallback_topic)])"
    by blast
  then have c1: "fst (generateTopic ascii_runtime ?sv (messages_request (JArr ?ms)) example_world)
       = json 200 [(''topic'', JStr ([55357, 56884] @ js '' Sleep Issues''))]"
    by (simp only: f sum.case)
  have g1: "get_prop (body (messages_request JNull)) (js ''messages'') = Inr JNull"
    by code_simp
  from generateTopic_failures_and_fallback [OF g1, of ascii_runtime ?sv example_world]
  have c2: "generateTopic ascii_runtime ?sv (messages_request JNull) example_world
       = (json 400 [(''error'',
            JStr (js ''Messages array is required and cannot be empty''))], example_world)"
    by simp
  from h1 h2 h3 h4 c1 g1 c2 show ?thesis by blast
qed

text \<open>
  C7 as stated fails on its second case: a request without caller identity, with a valid
  message list, is refused with 401 like in every other handler, not with the 400 of a
  validation failure.
\<close>

theorem generateTopic_unauthenticated_counterexample:
  "failure_of (fst (generateTopic ascii_runtime (example_services chatty_oracle True)
      ((messages_request (JArr [user_msg ''I can't sleep at night'']))\<lparr>user_id := None\<rparr>)
      example_world))
     = Some UnauthenticatedError
   \<and> failure_of (fst (generateTopic ascii_runtime (example_services chatty_oracle True)
      ((messages_request (JArr [user_msg ''I can't sleep at night'']))\<lparr>user_id := None\<rparr>)
      example_world))
     \<noteq> Some ValidationError"
  by code_simp

text \<open>
  C8. A topic that is not a string or is empty after trimming is answered with 400, the
  ValidationError; for a valid topic and an authenticated caller whose id denotes an
  ObjectId, an absent session with 404, the NotFoundError, and a session owned by another
  ObjectId with 403, the ForbiddenError, the world unchanged each time. For the owner,
  when the save is accepted, the stored topic is the trimmed topic cut to its first 100
  code units, the answer returns exactly that stored value, and a later \<open>findOne\<close> reads
  it back. (An id that denotes no ObjectId makes line 519 throw, which is answered with
  500: \<open>updateSessionTopic_bad_caller_id\<close>.)
\<close>

theorem updateSessionTopic_contract:
  assumes "get_prop (body req) (js ''topic'') = Inr v"
  shows "((case v of JStr s \<Rightarrow> trim s = [] | _ \<Rightarrow> True) \<longrightarrow>
            updateSessionTopic rt sv req w
              = (json 400 [(''error'',
                   JStr (js ''Topic is required and must be a non-empty string''))], w)
          \<and> failure_of (fst (updateSessionTopic rt sv req w)) = Some ValidationError)
       \<and> (\<forall>s uid cid. v = JStr s \<and> trim s \<noteq> [] \<and> caller req = Some uid
             \<and> new_ObjectId rt uid = Some cid
             \<and> findOne sv w (param_sessionId req) = Inr None \<longrightarrow>
            updateSessionTopic rt sv req w
              = (json 404 [(''error'', JStr (js ''Session not found''))], w)
          \<and> failure_of (fst (updateSessionTopic rt sv req w)) = Some NotFoundError)
       \<and> (\<forall>s uid cid session. v = JStr s \<and> trim s \<noteq> [] \<and> caller req = Some uid
             \<and> new_ObjectId rt uid = Some cid
             \<and> findOne sv w (param_sessionId req) = Inr (Some session)
             \<and> userId session \<noteq> cid \<longrightarrow>
            updateSessionTopic rt sv req w
              = (json 403 [(''error'', JStr (js ''Unauthorized''))], w)
          \<and> failure_of (fst (updateSessionTopic rt sv req w)) = Some ForbiddenError)
       \<and> (\<forall>s uid cid session stored. v = JStr s \<and> trim s \<noteq> []
             \<and> caller req = Some uid \<and> new_ObjectId rt uid = Some cid
             \<and> findOne sv w (param_sessionId req) = Inr (Some session)
             \<and> userId session = cid
             \<and> stored = take 100 (trim s)
             \<and> save_ok sv (session\<lparr>topic := Some stored\<rparr>) \<longrightarrow>
            fst (updateSessionTopic rt sv req w)
              = json 200 [(''success'', JBool True),
                          (''topic'', JStr stored),
                          (''message'', JStr (js ''Topic updated successfully''))]
          \<and> findOne sv (snd (updateSessionTopic rt sv req w)) (param_sessionId req)
              = Inr (Some (session\<lparr>topic := Some stored\<rparr>))
          \<and> length stored \<le> 100)"
proof (intro conjI impI allI)
  assume "case v of JStr s \<Rightarrow> trim s = [] | _ \<Rightarrow> True"
  then show "updateSessionTopic rt sv req w
      = (json 400 [(''error'',
           JStr (js ''Topic is required and must be a non-empty string''))], w)"
    using assms by (simp add: updateSessionTopic_def invalid_text_iff)
  then show "failure_of (fst (updateSessionTopic rt sv req w)) = Some ValidationError"
    by simp
next
  fix s uid cid
  assume "v = JStr s \<and> trim s \<noteq> [] \<and> caller req = Some uid
             \<and> new_ObjectId rt uid = Some cid
             \<and> findOne sv w (param_sessionId req) = Inr None"
  then show "updateSessionTopic rt sv req w
      = (json 404 [(''error'', JStr (js ''Session not found''))], w)"
    using assms by (simp add: updateSessionTopic_def invalid_text_iff)
  then show "failure_of (fst (updateSessionTopic rt sv req w)) = Some NotFoundError"
    by simp
next
  fix s uid cid session
  assume "v = JStr s \<and> trim s \<noteq> [] \<and> caller req = Some uid
             \<and> new_ObjectId rt uid = Some cid
             \<and> findOne sv w (param_sessionId req) = Inr (Some session)
             \<and> userId session \<noteq> cid"
  then show "updateSessionTopic rt sv req w
      = (json 403 [(''error'', JStr (js ''Unauthorized''))], w)"
    using assms by (simp add: updateSessionTopic_def invalid_text_iff)
  then show "failure_of (fst (updateSessionTopic rt sv req w)) = Some ForbiddenError"
    by simp
next
  fix s uid cid session stored
  assume a: "v = JStr s \<and> trim s \<noteq> []
             \<and> caller req = Some uid \<and> new_ObjectId rt uid = Some cid
             \<and> findOne sv w (param_sessionId req) = Inr (Some session)
             \<and> userId session = cid
             \<and> stored = take 100 (trim s)
             \<and> save_ok sv (session\<lparr>topic := Some stored\<rparr>)"
  then have b: "get_prop (body req) (js ''topic'') = Inr (JStr s)" "trim s \<noteq> []"
      "caller req = Some uid" "new_ObjectId rt uid = Some cid"
      "findOne sv w (param_sessionId req) = Inr (Some session)"
      "userId session = cid" "save_ok sv (session\<lparr>topic := Some (take 100 (trim s))\<rparr>)"
      and st: "stored = take 100 (trim s)"
    using assms by auto
  have u: "updateSessionTopic rt sv req w =
     (json 200 [(''success'', JBool True),
                (''topic'', JStr stored),
                (''message'', JStr (js ''Topic updated successfully''))],
      \<lparr>store = put_session (session\<lparr>topic := Some stored\<rparr>) (store w),
       trace = trace w @ [Session_save (session\<lparr>topic := Some stored\<rparr>) True]\<rparr>)"
    unfolding st by (rule updateSessionTopic_owner [OF b])
  then show "fst (updateSessionTopic rt sv req w)
              = json 200 [(''success'', JBool True),
                          (''topic'', JStr stored),
                          (''message'', JStr (js ''Topic updated successfully''))]"
    by simp
  from a findOne_sessionId [of sv w "param_sessionId req" session]
  have ok: "find_ok sv" and sid: "sessionId session = param_sessionId req" by simp_all
  have "find (\<lambda>d. sessionId d = sessionId (session\<lparr>topic := Some stored\<rparr>))
          (put_session (session\<lparr>topic := Some stored\<rparr>) (store w))
        = Some (session\<lparr>topic := Some stored\<rparr>)"
    by (rule find_put_session)
  with ok sid show "findOne sv (snd (updateSessionTopic rt sv req w)) (param_sessionId req)
              = Inr (Some (session\<lparr>topic := Some stored\<rparr>))"
    by (simp add: u findOne_def)
  from a show "length stored \<le> 100" by simp
qed

theorem updateSessionTopic_contract_witness:
  "get_prop (body (topic_request (JStr long_topic) owner_id)) (js ''topic'')
     = Inr (JStr long_topic)
   \<and> length long_topic = 126
   \<and> trim long_topic \<noteq> []
   \<and> caller (topic_request (JStr long_topic) owner_id) = Some (js owner_id)
   \<and> new_ObjectId ascii_runtime (js owner_id) = Some (js owner_id)
   \<and> findOne (example_services silent_oracle True) example_world
         (param_sessionId (topic_request (JStr long_topic) owner_id))
       = Inr (Some example_session)
   \<and> userId example_session = js owner_id
   \<and> long_topic_kept = take 100 (trim long_topic)
   \<and> save_ok (example_services silent_oracle True)
         (example_session\<lparr>topic := Some long_topic_kept\<rparr>)
   \<and> fst (updateSessionTopic ascii_runtime (example_services silent_oracle True)
         (topic_request (JStr long_topic) owner_id) example_world)
       = json 200 [(''success'', JBool True),
                   (''topic'', JStr long_topic_kept),
                   (''message'', JStr (js ''Topic updated successfully''))]
   \<and> findOne (example_services silent_oracle True)
         (snd (updateSessionTopic ascii_runtime (example_services silent_oracle True)
            (topic_request (JStr long_topic) owner_id) example_world))
         (param_sessionId (topic_request (JStr long_topic) owner_id))
       = Inr (Some (example_session\<lparr>topic := Some long_topic_kept\<rparr>))
   \<and> length long_topic_kept \<le> 100"
proof -
  let ?sv = "example_services silent_oracle True"
  let ?req = "topic_request (JStr long_topic) owner_id"
  have h1: "get_prop (body ?req) (js ''topic'') = Inr (JStr long_topic)" by code_simp
  have l: "length long_topic = 126" by code_simp
  have h2: "trim long_topic \<noteq> []" by code_simp
  have h3: "caller ?req = Some (js owner_id)" by code_simp
  have i: "new_ObjectId ascii_runtime (js owner_id) = Some (js owner_id)" by code_simp
  have h4: "findOne ?sv example_world (param_sessionId ?req) = Inr (Some example_session)"
    by code_simp
  have h5: "userId example_session = js owner_id" by code_simp
  have h6: "long_topic_kept = take 100 (trim long_topic)" by code_simp
  have h7: "save_ok ?sv (example_session\<lparr>topic := Some long_topic_kept\<rparr>)"
    by (simp add: example_services_def)
  from updateSessionTopic_contract [OF h1, of ascii_runtime ?sv example_world] h2 h3 i h4 h5 h6 h7
  have "fst (updateSessionTopic ascii_runtime ?sv ?req example_world)
              = json 200 [(''success'', JBool True),
                          (''topic'', JStr long_topic_kept),
                          (''message'', JStr (js ''Topic updated successfully''))]
          \<and> findOne ?sv (snd (updateSessionTopic ascii_runtime ?sv ?req example_world)) (param_sessionId ?req)
              = Inr (Some (example_session\<lparr>topic := Some long_topic_kept\<rparr>))
          \<and> length long_topic_kept \<le> 100"
    by blast
  with h1 l h2 h3 i h4 h5 h6 h7 show ?thesis by blast
qed

end
